theory Spec2Isabelle
  imports Complex_Main
begin

section \<open>Numbers of the calculator\<close>

text \<open>
  The calculator (\<^verbatim>\<open>src/components/CalculatorView.tsx\<close>) computes with JavaScript
  numbers. A number is modelled as \<open>NaN\<close>, one of the two infinities, or a finite value.
  Finite values are taken as real numbers: rounding of doubles, overflow of finite
  arithmetic to an infinity, underflow to zero and the sign of zero are not modelled, so
  an equation proved here holds in the program up to floating-point rounding. Where the
  branch that a handler takes would depend on an overflow, the statement names the
  computed value and requires it to be in the range of the finite doubles.
\<close>

datatype number = NaN | PInf | NInf | Num real

text \<open>\<^verbatim>\<open>a + b\<close>\<close>

fun nadd :: "number \<Rightarrow> number \<Rightarrow> number" where
  "nadd NaN _ = NaN"
| "nadd _ NaN = NaN"
| "nadd PInf NInf = NaN"
| "nadd NInf PInf = NaN"
| "nadd PInf _ = PInf"
| "nadd _ PInf = PInf"
| "nadd NInf _ = NInf"
| "nadd _ NInf = NInf"
| "nadd (Num a) (Num b) = Num (a + b)"

text \<open>\<^verbatim>\<open>a * b\<close>: an infinity times zero is \<open>NaN\<close>, otherwise the signs multiply.\<close>

fun nmul :: "number \<Rightarrow> number \<Rightarrow> number" where
  "nmul NaN _ = NaN"
| "nmul _ NaN = NaN"
| "nmul (Num a) (Num b) = Num (a * b)"
| "nmul PInf (Num b) = (if b = 0 then NaN else if 0 < b then PInf else NInf)"
| "nmul NInf (Num b) = (if b = 0 then NaN else if 0 < b then NInf else PInf)"
| "nmul (Num a) PInf = (if a = 0 then NaN else if 0 < a then PInf else NInf)"
| "nmul (Num a) NInf = (if a = 0 then NaN else if 0 < a then NInf else PInf)"
| "nmul PInf PInf = PInf"
| "nmul NInf NInf = PInf"
| "nmul PInf NInf = NInf"
| "nmul NInf PInf = NInf"

text \<open>
  \<^verbatim>\<open>a / b\<close>: a finite non-zero value over zero is an infinity, zero over zero and an
  infinity over an infinity are \<open>NaN\<close>, a finite value over an infinity is zero.
\<close>

fun ndiv :: "number \<Rightarrow> number \<Rightarrow> number" where
  "ndiv NaN _ = NaN"
| "ndiv _ NaN = NaN"
| "ndiv (Num a) (Num b) =
     (if b = 0 then (if a = 0 then NaN else if 0 < a then PInf else NInf) else Num (a / b))"
| "ndiv PInf (Num b) = (if 0 \<le> b then PInf else NInf)"
| "ndiv NInf (Num b) = (if 0 \<le> b then NInf else PInf)"
| "ndiv (Num a) _ = Num 0"
| "ndiv _ _ = NaN"

text \<open>\<^verbatim>\<open>a < b\<close> and \<^verbatim>\<open>a <= b\<close>: every comparison with \<open>NaN\<close> is false.\<close>

fun nlt :: "number \<Rightarrow> number \<Rightarrow> bool" where
  "nlt NaN _ = False"
| "nlt _ NaN = False"
| "nlt (Num a) (Num b) = (a < b)"
| "nlt NInf NInf = False"
| "nlt NInf _ = True"
| "nlt _ NInf = False"
| "nlt PInf _ = False"
| "nlt _ PInf = True"

fun nle :: "number \<Rightarrow> number \<Rightarrow> bool" where
  "nle NaN _ = False"
| "nle _ NaN = False"
| "nle (Num a) (Num b) = (a \<le> b)"
| "nle NInf _ = True"
| "nle _ PInf = True"
| "nle _ _ = False"

text \<open>\<^verbatim>\<open>a > b\<close>\<close>

definition ngt :: "number \<Rightarrow> number \<Rightarrow> bool" where
  "ngt a b = nlt b a"

text \<open>\<^verbatim>\<open>isNaN(a)\<close>\<close>

fun isNaN :: "number \<Rightarrow> bool" where
  "isNaN NaN = True"
| "isNaN _ = False"

text \<open>Truthiness of a number: \<open>0\<close> and \<open>NaN\<close> are falsy.\<close>

fun truthy :: "number \<Rightarrow> bool" where
  "truthy NaN = False"
| "truthy (Num a) = (a \<noteq> 0)"
| "truthy _ = True"

text \<open>\<^verbatim>\<open>a || d\<close> on numbers, and on a field that may be absent (\<open>undefined\<close> is falsy).\<close>

definition num_or :: "number \<Rightarrow> number \<Rightarrow> number" where
  "num_or a d = (if truthy a then a else d)"

definition opt_num_or :: "number option \<Rightarrow> number \<Rightarrow> number" where
  "opt_num_or a d = (case a of None \<Rightarrow> d | Some v \<Rightarrow> num_or v d)"

text \<open>\<^verbatim>\<open>Math.round(a)\<close>: the nearest integer, a tie going up.\<close>

fun Math_round :: "number \<Rightarrow> number" where
  "Math_round (Num a) = Num (of_int \<lfloor>a + 1 / 2\<rfloor>)"
| "Math_round a = a"

text \<open>The finite numbers, and the real value of one.\<close>

fun is_num :: "number \<Rightarrow> bool" where
  "is_num (Num _) = True"
| "is_num _ = False"

fun num_val :: "number \<Rightarrow> real" where
  "num_val (Num a) = a"
| "num_val _ = 0"

text \<open>
  \<^verbatim>\<open>Number.MAX_VALUE\<close>, the largest finite double, and the numbers in the range of the
  finite doubles.
\<close>

definition MAX_VALUE :: real where
  "MAX_VALUE = (2 - 1 / 2 ^ 52) * 2 ^ 1023"

fun finite_double :: "number \<Rightarrow> bool" where
  "finite_double (Num a) = (\<bar>a\<bar> \<le> MAX_VALUE)"
| "finite_double _ = False"

section \<open>Unit conversion\<close>

text \<open>\<^verbatim>\<open>type Unit = 'm' | 'ft' | 'in' | 'cm'\<close> and the table \<^verbatim>\<open>CONVERSION_TO_METER\<close>.\<close>

datatype Unit = Unit_m | Unit_ft | Unit_in | Unit_cm

fun CONVERSION_TO_METER :: "Unit \<Rightarrow> number" where
  "CONVERSION_TO_METER Unit_m = Num 1"
| "CONVERSION_TO_METER Unit_cm = Num (1 / 100)"
| "CONVERSION_TO_METER Unit_in = Num (254 / 10000)"
| "CONVERSION_TO_METER Unit_ft = Num (3048 / 10000)"

text \<open>
  \<^verbatim>\<open>lengthInMeters = length * CONVERSION_TO_METER[lengthUnit]\<close> (and the same for the
  width): the conversion of an entered value to meters.
\<close>

definition toMeters :: "number \<Rightarrow> Unit \<Rightarrow> number" where
  "toMeters v u = nmul v (CONVERSION_TO_METER u)"

text \<open>
  The values that \<^verbatim>\<open>conversions\<close> of \<^verbatim>\<open>UnitConverterDisplay\<close> computes from a length
  in meters, before they are formatted: meters as they are, centimeters by \<^verbatim>\<open>valM * 100\<close>,
  feet and inches by division by the table entry.
\<close>

fun fromMeters :: "number \<Rightarrow> Unit \<Rightarrow> number" where
  "fromMeters valM Unit_m = valM"
| "fromMeters valM Unit_cm = nmul valM (Num 100)"
| "fromMeters valM Unit_ft = ndiv valM (CONVERSION_TO_METER Unit_ft)"
| "fromMeters valM Unit_in = ndiv valM (CONVERSION_TO_METER Unit_in)"

section \<open>Data of the calculator\<close>

text \<open>
  The interfaces of \<^verbatim>\<open>src/firebase.ts\<close> that the calculator reads. Two interfaces may
  not share a field name here, so the fields of \<^verbatim>\<open>PricingTier\<close> carry the prefix
  \<open>tier_\<close> and those of \<^verbatim>\<open>InventoryItem\<close> the prefix \<open>inv_\<close>. Of an inventory item
  the calculator's append reads the identifier, the name, the two prices and the five
  attribute slots; the floor price and the attributes may be absent in a stored document.
\<close>

record StockItem =
  skuId :: string
  categoryId :: string
  width :: number
  itemName :: string
  totalStockMeters :: number
  reorderLevel :: number
  lastPurchasePricePerRoll_UGX :: number

record PricingTier =
  tier_id :: string
  tier_name :: string
  tier_value :: number
  tier_categoryId :: string

record InventoryItem =
  inv_id :: string
  inv_name :: string
  inv_category :: string
  inv_quantity :: number
  inv_price :: number
  inv_minPrice :: "number option"
  inv_attr1 :: "string option"
  inv_attr2 :: "string option"
  inv_attr3 :: "string option"
  inv_attr4 :: "string option"
  inv_attr5 :: "string option"

record SaleItem =
  itemId :: string
  name :: string
  quantity :: number
  price :: number

datatype DtfPreset = A4 | A3

text \<open>
  The component state (\<^verbatim>\<open>useState\<close>) that the pricing and the quote read and write.
  The fields \<^verbatim>\<open>length\<close> and \<^verbatim>\<open>width\<close> are \<open>lengthVal\<close> and \<open>widthVal\<close> here. A selection
  held as a string is unselected when the string is empty.
\<close>

record state =
  activeTab :: string
  quoteItems :: "SaleItem list"
  lengthVal :: number
  lengthUnit :: Unit
  widthVal :: number
  widthUnit :: Unit
  selectedStockItem :: string
  selectedTier :: string
  dimQuantity :: number
  extraAmount :: number
  extraAmountLabel :: string
  dtfPreset :: "DtfPreset option"
  selectedProduct :: "InventoryItem option"
  negotiatedPrice :: number
  simpleQuantity :: number
  manualItemName :: string
  manualPrice :: number
  manualQuantity :: number

text \<open>The properties of the component that the pricing reads.\<close>

record props =
  stockItems :: "StockItem list"
  pricingTiers :: "PricingTier list"

text \<open>
  The platform functions the component calls are parameters: \<^verbatim>\<open>Number.prototype.toFixed\<close>,
  \<^verbatim>\<open>Intl.NumberFormat('en-US').format\<close> and \<^verbatim>\<open>String.prototype.trim\<close>.
\<close>

record builtins =
  toFixed :: "number \<Rightarrow> nat \<Rightarrow> string"
  numberFormat :: "number \<Rightarrow> string"
  trim :: "string \<Rightarrow> string"

text \<open>A toast is the message and its type, as passed to \<^verbatim>\<open>addToast\<close>.\<close>

type_synonym toast = "string \<times> string"

section \<open>Formatting\<close>

definition formatUGX :: "builtins \<Rightarrow> number \<Rightarrow> string" where
  "formatUGX b amount =
     (if isNaN amount then ''0 UGX'' else numberFormat b (Math_round amount) @ '' UGX'')"

text \<open>\<^verbatim>\<open>s || d\<close> on strings: the empty string is falsy.\<close>

definition str_or :: "string \<Rightarrow> string \<Rightarrow> string" where
  "str_or s d = (if s = [] then d else s)"

text \<open>\<^verbatim>\<open>[...].filter(Boolean)\<close> on optional strings and \<^verbatim>\<open>.join(sep)\<close>.\<close>

fun filter_Boolean :: "string option list \<Rightarrow> string list" where
  "filter_Boolean [] = []"
| "filter_Boolean (None # xs) = filter_Boolean xs"
| "filter_Boolean (Some s # xs) = (if s = [] then filter_Boolean xs else s # filter_Boolean xs)"

fun join :: "string \<Rightarrow> string list \<Rightarrow> string" where
  "join sep [] = []"
| "join sep [x] = x"
| "join sep (x # y # xs) = x @ sep @ join sep (y # xs)"

text \<open>The formatted values of \<^verbatim>\<open>conversions\<close> in \<^verbatim>\<open>UnitConverterDisplay\<close>.\<close>

record conversions_t =
  conv_m :: string
  conv_cm :: string
  conv_ft :: string
  conv_in :: string

definition conversions :: "builtins \<Rightarrow> number \<Rightarrow> conversions_t" where
  "conversions b valM =
     \<lparr>conv_m = toFixed b (fromMeters valM Unit_m) 2,
      conv_cm = toFixed b (fromMeters valM Unit_cm) 1,
      conv_ft = toFixed b (fromMeters valM Unit_ft) 2,
      conv_in = toFixed b (fromMeters valM Unit_in) 2\<rparr>"

section \<open>Derived values\<close>

definition isDTF :: "state \<Rightarrow> bool" where
  "isDTF s = (activeTab s = ''dtf'')"

definition lengthInMeters :: "state \<Rightarrow> number" where
  "lengthInMeters s = toMeters (lengthVal s) (lengthUnit s)"

definition widthInMeters :: "state \<Rightarrow> number" where
  "widthInMeters s = toMeters (widthVal s) (widthUnit s)"

definition tiersForSelectedItem :: "props \<Rightarrow> state \<Rightarrow> PricingTier list" where
  "tiersForSelectedItem p s =
     (if selectedStockItem s = [] then []
      else case find (\<lambda>i. skuId i = selectedStockItem s) (stockItems p) of
             None \<Rightarrow> []
           | Some i \<Rightarrow>
               if categoryId i = [] then []
               else filter (\<lambda>tier. tier_categoryId tier = categoryId i) (pricingTiers p))"

definition selectedMultiplier :: "props \<Rightarrow> state \<Rightarrow> number" where
  "selectedMultiplier p s =
     (if selectedTier s = [] then Num 0
      else case find (\<lambda>t. tier_id t = selectedTier s) (tiersForSelectedItem p s) of
             None \<Rightarrow> Num 0
           | Some t \<Rightarrow> num_or (tier_value t) (Num 0))"

definition totalDimPrice :: "props \<Rightarrow> state \<Rightarrow> number" where
  "totalDimPrice p s =
     (let basePrice =
        (if isDTF s then
           (case dtfPreset s of
              Some A4 \<Rightarrow> nmul (Num 5000) (dimQuantity s)
            | Some A3 \<Rightarrow> nmul (Num 10000) (dimQuantity s)
            | None \<Rightarrow> nmul (nmul (lengthInMeters s) (Num 15000)) (dimQuantity s))
         else
           (let lengthCM = nmul (lengthInMeters s) (Num 100);
                widthCM = nmul (widthInMeters s) (Num 100)
            in nmul (nmul (nmul lengthCM widthCM) (selectedMultiplier p s)) (dimQuantity s)))
      in nadd basePrice (extraAmount s))"

definition totalSimplePrice :: "state \<Rightarrow> number" where
  "totalSimplePrice s = nadd (nmul (negotiatedPrice s) (simpleQuantity s)) (extraAmount s)"

definition totalManualPrice :: "state \<Rightarrow> number" where
  "totalManualPrice s = nmul (manualPrice s) (manualQuantity s)"

definition totalQuotePrice :: "state \<Rightarrow> number" where
  "totalQuotePrice s =
     foldl (\<lambda>acc item. nadd acc (nmul (price item) (quantity item))) (Num 0) (quoteItems s)"

section \<open>Input handlers\<close>

text \<open>
  The \<^verbatim>\<open>onChange\<close> handlers of the length, width and quantity fields. The argument is
  what \<^verbatim>\<open>parseFloat\<close> (\<^verbatim>\<open>parseInt\<close> for the quantity) returns on the text of the field:
  \<open>NaN\<close> when the text is not numeric.
\<close>

definition length_onChange :: "number \<Rightarrow> state \<Rightarrow> state" where
  "length_onChange parsed s =
     (let s1 = s\<lparr>lengthVal := num_or parsed (Num 0)\<rparr>
      in if isDTF s then s1\<lparr>dtfPreset := None\<rparr> else s1)"

definition width_onChange :: "number \<Rightarrow> state \<Rightarrow> state" where
  "width_onChange parsed s = s\<lparr>widthVal := num_or parsed (Num 0)\<rparr>"

definition dimQuantity_onChange :: "number \<Rightarrow> state \<Rightarrow> state" where
  "dimQuantity_onChange parsed s = s\<lparr>dimQuantity := num_or parsed (Num 1)\<rparr>"

section \<open>Appending to the quote\<close>

text \<open>
  Each handler reads the state of the render it was created in and returns the state
  after its setters, with the toasts it raised. The argument \<open>now\<close> is the text of
  \<^verbatim>\<open>Date.now()\<close>. A handler has no \<^verbatim>\<open>throw\<close>: every path of it returns.
\<close>

definition handleAddDimToQuote ::
  "builtins \<Rightarrow> props \<Rightarrow> string \<Rightarrow> state \<Rightarrow> state \<times> toast list" where
  "handleAddDimToQuote b p now s =
     (if selectedStockItem s = [] then (s, [(''Please select a material/roll.'', ''error'')])
      else if \<not> isDTF s \<and> selectedTier s = [] then
        (s, [(''Please select a pricing tier.'', ''error'')])
      else if nle (totalDimPrice p s) (Num 0) then
        (s, [(''Calculated price must be greater than zero.'', ''error'')])
      else case find (\<lambda>i. skuId i = selectedStockItem s) (stockItems p) of
        None \<Rightarrow> (s, [])
      | Some stockItem \<Rightarrow>
          (let itemName1 = itemName stockItem @
                 (if isDTF s then
                    (case dtfPreset s of
                       Some A4 \<Rightarrow> '' (A4)''
                     | Some A3 \<Rightarrow> '' (A3)''
                     | None \<Rightarrow> '' (Custom Length: '' @ toFixed b (lengthInMeters s) 2 @ ''m)'')
                  else '' ('' @ toFixed b (lengthInMeters s) 2 @ ''m x ''
                         @ toFixed b (widthInMeters s) 2 @ ''m)'');
               itemName2 =
                 (if ngt (extraAmount s) (Num 0) then
                    itemName1 @ '' + '' @ str_or (trim b (extraAmountLabel s)) ''Extra''
                      @ '': '' @ formatUGX b (extraAmount s)
                  else itemName1);
               newItem = \<lparr>itemId = ''calc-'' @ skuId stockItem @ ''-'' @ now,
                          name = itemName2,
                          quantity = dimQuantity s,
                          price = ndiv (totalDimPrice p s) (dimQuantity s)\<rparr>;
               s1 = s\<lparr>quoteItems := quoteItems s @ [newItem],
                      dimQuantity := Num 1,
                      extraAmount := Num 0,
                      extraAmountLabel := []\<rparr>
           in (if isDTF s then s1\<lparr>dtfPreset := None\<rparr> else s1, [])))"

text \<open>The floor that the catalog append and its button compare with: \<^verbatim>\<open>minPrice || 0\<close>.\<close>

definition floorPrice :: "InventoryItem \<Rightarrow> number" where
  "floorPrice sp = opt_num_or (inv_minPrice sp) (Num 0)"

definition handleAddSimpleToQuote ::
  "builtins \<Rightarrow> string \<Rightarrow> state \<Rightarrow> state \<times> toast list" where
  "handleAddSimpleToQuote b now s =
     (case selectedProduct s of
        None \<Rightarrow> (s, [(''Please select a product from the filtered list.'', ''error'')])
      | Some sp \<Rightarrow>
          if nle (simpleQuantity s) (Num 0) then
            (s, [(''Quantity must be greater than 0.'', ''error'')])
          else if nlt (negotiatedPrice s) (floorPrice sp) then
            (s, [(''Price cannot be below the minimum discount price of ''
                    @ formatUGX b (floorPrice sp) @ ''.'', ''error'')])
          else
            (let attributes = join '' | '' (filter_Boolean
                   [inv_attr1 sp, inv_attr2 sp, inv_attr3 sp, inv_attr4 sp, inv_attr5 sp]);
                 displayName1 = inv_name sp @
                   (if attributes = [] then [] else '' ('' @ attributes @ '')'');
                 displayName2 =
                   (if ngt (extraAmount s) (Num 0) then
                      displayName1 @ '' (+ ''
                        @ str_or (trim b (extraAmountLabel s)) ''Extra Fee/Design''
                        @ '': '' @ formatUGX b (extraAmount s) @ '')''
                    else displayName1);
                 newItem = \<lparr>itemId = ''simple-'' @ inv_id sp @ ''-'' @ now,
                            name = displayName2,
                            quantity = simpleQuantity s,
                            price = nadd (negotiatedPrice s)
                                      (ndiv (extraAmount s) (simpleQuantity s))\<rparr>
             in (s\<lparr>quoteItems := quoteItems s @ [newItem],
                    simpleQuantity := Num 1,
                    extraAmount := Num 0,
                    extraAmountLabel := [],
                    selectedProduct := None,
                    negotiatedPrice := Num 0\<rparr>, [])))"

text \<open>The \<^verbatim>\<open>disabled\<close> attribute of the catalog append button, shown for a selected product.\<close>

definition appendSimple_disabled :: "state \<Rightarrow> bool" where
  "appendSimple_disabled s =
     (case selectedProduct s of
        None \<Rightarrow> False
      | Some sp \<Rightarrow> nlt (negotiatedPrice s) (floorPrice sp))"

definition handleAddManualToQuote ::
  "builtins \<Rightarrow> string \<Rightarrow> state \<Rightarrow> state \<times> toast list" where
  "handleAddManualToQuote b now s =
     (if trim b (manualItemName s) = [] then (s, [(''Please enter an item name.'', ''error'')])
      else if nle (manualPrice s) (Num 0) then
        (s, [(''Price must be greater than zero.'', ''error'')])
      else if nle (manualQuantity s) (Num 0) then
        (s, [(''Quantity must be greater than zero.'', ''error'')])
      else
        (let newItem = \<lparr>itemId = ''manual-'' @ now,
                        name = trim b (manualItemName s),
                        quantity = manualQuantity s,
                        price = manualPrice s\<rparr>
         in (s\<lparr>quoteItems := quoteItems s @ [newItem],
                manualItemName := [],
                manualPrice := Num 0,
                manualQuantity := Num 1\<rparr>, [])))"

section \<open>Removing, clearing and submitting\<close>

definition handleClearQuote :: "state \<Rightarrow> state" where
  "handleClearQuote s = s\<lparr>quoteItems := []\<rparr>"

text \<open>\<^verbatim>\<open>prev.filter((_, i) => i !== index)\<close>: the items paired with their positions.\<close>

definition handleRemoveQuoteItem :: "nat \<Rightarrow> state \<Rightarrow> state" where
  "handleRemoveQuoteItem index s =
     s\<lparr>quoteItems :=
         map fst (filter (\<lambda>(_, i). i \<noteq> index)
                    (zip (quoteItems s) [0..<length (quoteItems s)]))\<rparr>"

text \<open>
  The collaborator \<^verbatim>\<open>onCreateSale\<close> has the type \<^verbatim>\<open>(items: SaleItem[]) => void\<close>. A call
  of it either throws, or returns; when it returns, the sale creation that the handoff
  starts succeeds or fails later, which the caller cannot see: the callback returns
  nothing and the handler does not await it.
\<close>

datatype 'e handoff = Throws 'e | Returns bool

text \<open>
  The result of the click is the state after it, the toasts, the arguments of the calls
  made to the collaborator, and the exception that leaves the handler, if any: a
  statement after a call that throws is not executed.
\<close>

record 'e click_result =
  state_after :: state
  toasts :: "toast list"
  calls :: "SaleItem list list"
  thrown :: "'e option"

definition handleCreateSaleClick ::
  "(SaleItem list \<Rightarrow> 'e handoff) \<Rightarrow> state \<Rightarrow> 'e click_result" where
  "handleCreateSaleClick onCreateSale s =
     (if length (quoteItems s) = 0 then
        \<lparr>state_after = s,
         toasts = [(''Your quote is empty. Add items to create a sale.'', ''error'')],
         calls = [], thrown = None\<rparr>
      else case onCreateSale (quoteItems s) of
        Throws e \<Rightarrow> \<lparr>state_after = s, toasts = [], calls = [quoteItems s], thrown = Some e\<rparr>
      | Returns created \<Rightarrow>
          \<lparr>state_after = handleClearQuote s, toasts = [], calls = [quoteItems s],
           thrown = None\<rparr>)"

section \<open>Example data\<close>

text \<open>
  The state of a freshly mounted component: the defaults of its \<^verbatim>\<open>useState\<close> calls.
\<close>

definition initial_state :: state where
  "initial_state =
     \<lparr>activeTab = ''large-format'', quoteItems = [],
      lengthVal = Num 100, lengthUnit = Unit_cm, widthVal = Num 60, widthUnit = Unit_cm,
      selectedStockItem = [], selectedTier = [], dimQuantity = Num 1,
      extraAmount = Num 0, extraAmountLabel = [], dtfPreset = None,
      selectedProduct = None, negotiatedPrice = Num 0, simpleQuantity = Num 1,
      manualItemName = [], manualPrice = Num 0, manualQuantity = Num 1\<rparr>"

text \<open>
  A small shop for the examples: a vinyl roll with a tier of 5 per square centimeter, a
  film roll, and three catalog products. The platform of the examples prints a fixed
  text for every number, since no statement below depends on the print, and its \<open>trim\<close>
  is right on the texts without blanks that the examples use.
\<close>

definition example_builtins :: builtins where
  "example_builtins = \<lparr>toFixed = (\<lambda>x d. ''#''), numberFormat = (\<lambda>x. ''#''), trim = (\<lambda>t. t)\<rparr>"

definition vinyl_roll :: StockItem where
  "vinyl_roll = \<lparr>skuId = ''SKU1'', categoryId = ''CAT1'', width = Num 1.5, itemName = ''Vinyl'',
                  totalStockMeters = Num 50, reorderLevel = Num 10,
                  lastPurchasePricePerRoll_UGX = Num 200000\<rparr>"

definition film_roll :: StockItem where
  "film_roll = \<lparr>skuId = ''SKU2'', categoryId = ''CAT2'', width = Num 0.6, itemName = ''DTF Film'',
                 totalStockMeters = Num 100, reorderLevel = Num 10,
                 lastPurchasePricePerRoll_UGX = Num 300000\<rparr>"

definition standard_tier :: PricingTier where
  "standard_tier = \<lparr>tier_id = ''T1'', tier_name = ''Standard'', tier_value = Num 5,
                     tier_categoryId = ''CAT1''\<rparr>"

definition example_props :: props where
  "example_props = \<lparr>stockItems = [vinyl_roll, film_roll], pricingTiers = [standard_tier]\<rparr>"

definition polo_shirt :: InventoryItem where
  "polo_shirt = \<lparr>inv_id = ''P1'', inv_name = ''Polo'', inv_category = ''Shirts'',
                  inv_quantity = Num 40, inv_price = Num 10000, inv_minPrice = Some (Num 8000),
                  inv_attr1 = Some ''Red'', inv_attr2 = None, inv_attr3 = Some ''L'',
                  inv_attr4 = None, inv_attr5 = None\<rparr>"

text \<open>A product saved with the defaults of the inventory form: both prices are 0.\<close>

definition unpriced_product :: InventoryItem where
  "unpriced_product = \<lparr>inv_id = ''P2'', inv_name = ''Sticker'', inv_category = ''Shirts'',
                        inv_quantity = Num 5, inv_price = Num 0, inv_minPrice = Some (Num 0),
                        inv_attr1 = None, inv_attr2 = None, inv_attr3 = None,
                        inv_attr4 = None, inv_attr5 = None\<rparr>"

text \<open>A product whose stored document has no floor price, and one with a negative floor.\<close>

definition floorless_product :: InventoryItem where
  "floorless_product = polo_shirt\<lparr>inv_id := ''P3'', inv_minPrice := None\<rparr>"

definition negative_floor_product :: InventoryItem where
  "negative_floor_product = polo_shirt\<lparr>inv_id := ''P4'', inv_minPrice := Some (Num (- 100))\<rparr>"

text \<open>The scenario of the area pricing: 100 cm by 60 cm of the vinyl roll, tier 5, one piece.\<close>

definition area_state :: state where
  "area_state = initial_state\<lparr>selectedStockItem := ''SKU1'', selectedTier := ''T1''\<rparr>"

text \<open>The scenario of the film pricing: the film roll, preset A4, three pieces.\<close>

definition film_state :: state where
  "film_state = initial_state\<lparr>activeTab := ''dtf'', selectedStockItem := ''SKU2'',
                  lengthVal := Num 29.7, dtfPreset := Some A4, dimQuantity := Num 3\<rparr>"

text \<open>The scenario of the catalog pricing: the polo shirt, offered at 7000.\<close>

definition catalog_state :: state where
  "catalog_state = initial_state\<lparr>activeTab := ''products'', selectedProduct := Some polo_shirt,
                     negotiatedPrice := Num 7000\<rparr>"

text \<open>The scenario of the manual entry: a delivery at 20000.\<close>

definition manual_state :: state where
  "manual_state = initial_state\<lparr>activeTab := ''others'', manualItemName := ''Delivery'',
                    manualPrice := Num 20000\<rparr>"

text \<open>Three line items for the examples of the quote.\<close>

definition item_a :: SaleItem where
  "item_a = \<lparr>itemId = ''calc-SKU1-1'', name = ''Vinyl'', quantity = Num 1, price = Num 30000\<rparr>"

definition item_b :: SaleItem where
  "item_b = \<lparr>itemId = ''simple-P1-2'', name = ''Polo'', quantity = Num 2, price = Num 9000\<rparr>"

definition item_c :: SaleItem where
  "item_c = \<lparr>itemId = ''manual-3'', name = ''Delivery'', quantity = Num 1, price = Num 20000\<rparr>"

definition quote_state :: state where
  "quote_state = initial_state\<lparr>quoteItems := [item_a, item_b, item_c]\<rparr>"

text \<open>
  The unpriced product selected (the selection sets the negotiated price to its preferred
  price 0), and the polo shirt at its floor of 8000 with a fee of -20000 typed into the
  fee field.
\<close>

definition free_state :: state where
  "free_state = initial_state\<lparr>activeTab := ''products'',
                  selectedProduct := Some unpriced_product, negotiatedPrice := Num 0\<rparr>"

definition rebate_state :: state where
  "rebate_state = initial_state\<lparr>activeTab := ''products'', selectedProduct := Some polo_shirt,
                    negotiatedPrice := Num 8000, extraAmount := Num (- 20000)\<rparr>"

text \<open>The area scenario after -100 is typed into the length field and -60 into the width field.\<close>

definition negative_dims_state :: state where
  "negative_dims_state = width_onChange (Num (- 60)) (length_onChange (Num (- 100)) area_state)"

text \<open>The film scenario with a selected roll that is not among the stock items.\<close>

definition vanished_state :: state where
  "vanished_state = film_state\<lparr>selectedStockItem := ''SKU9''\<rparr>"

text \<open>The product with the negative floor selected, offered at -50.\<close>

definition negative_offer_state :: state where
  "negative_offer_state = initial_state\<lparr>activeTab := ''products'',
                            selectedProduct := Some negative_floor_product,
                            negotiatedPrice := Num (- 50)\<rparr>"

text \<open>The polo shirt offered at 9000, two pieces, with a fee of 1000.\<close>

definition offer_state :: state where
  "offer_state = catalog_state\<lparr>negotiatedPrice := Num 9000, extraAmount := Num 1000,
                   simpleQuantity := Num 2\<rparr>"

section \<open>The total of the quote, as the specification words it\<close>

text \<open>The sum over the items of quantity times unit price.\<close>

fun sum_lines :: "SaleItem list \<Rightarrow> number" where
  "sum_lines [] = Num 0"
| "sum_lines (item # items) = nadd (nmul (quantity item) (price item)) (sum_lines items)"

section \<open>Properties of the unit conversion\<close>

text \<open>
  C3: converting any value to meters and back gives the value again, for each of the
  four units; the factors are meter 1, centimeter 0.01, inch 0.0254, foot 0.3048;
  the way to meters multiplies by the factor and the way back is a division by it.
\<close>

theorem unit_round_trip:
  "fromMeters (toMeters x u) u = x
   \<and> toMeters x u = nmul x (CONVERSION_TO_METER u)
   \<and> fromMeters x u = ndiv x (CONVERSION_TO_METER u)
   \<and> CONVERSION_TO_METER Unit_m = Num 1
   \<and> CONVERSION_TO_METER Unit_cm = Num 0.01
   \<and> CONVERSION_TO_METER Unit_in = Num 0.0254
   \<and> CONVERSION_TO_METER Unit_ft = Num 0.3048"
  by (cases x; cases u) (simp_all add: toMeters_def)

section \<open>Area pricing\<close>

lemma totalDimPrice_area:
  "\<not> isDTF s \<Longrightarrow> totalDimPrice p s =
     nadd (nmul (nmul (nmul (nmul (toMeters (lengthVal s) (lengthUnit s)) (Num 100))
                             (nmul (toMeters (widthVal s) (widthUnit s)) (Num 100)))
                       (selectedMultiplier p s)) (dimQuantity s)) (extraAmount s)"
  by (simp add: totalDimPrice_def Let_def lengthInMeters_def widthInMeters_def)

text \<open>The quantity field never holds zero or \<open>NaN\<close>: its handler stores \<^verbatim>\<open>parseInt(v) || 1\<close>.\<close>

lemma dimQuantity_onChange_nonzero:
  "dimQuantity (dimQuantity_onChange parsed s) \<noteq> Num 0
   \<and> \<not> isNaN (dimQuantity (dimQuantity_onChange parsed s))"
  by (cases parsed) (simp_all add: dimQuantity_onChange_def num_or_def)

lemmas example_defs = initial_state_def example_builtins_def vinyl_roll_def film_roll_def
  standard_tier_def example_props_def polo_shirt_def unpriced_product_def
  floorless_product_def negative_floor_product_def area_state_def film_state_def
  catalog_state_def manual_state_def item_a_def item_b_def item_c_def quote_state_def
  free_state_def rebate_state_def negative_dims_state_def vanished_state_def
  negative_offer_state_def

lemmas eval_defs = isDTF_def tiersForSelectedItem_def totalDimPrice_def selectedMultiplier_def
  lengthInMeters_def widthInMeters_def toMeters_def num_or_def opt_num_or_def floorPrice_def
  totalSimplePrice_def totalManualPrice_def ngt_def str_or_def formatUGX_def Let_def
  length_onChange_def width_onChange_def

lemma area_state_facts:
  "\<not> isDTF area_state"
  "selectedStockItem area_state \<noteq> []"
  "selectedTier area_state \<noteq> []"
  "find (\<lambda>t. tier_id t = selectedTier area_state) (tiersForSelectedItem example_props area_state)
     = Some standard_tier"
  "find (\<lambda>i. skuId i = selectedStockItem area_state) (stockItems example_props) = Some vinyl_roll"
  "totalDimPrice example_props area_state = Num 30000"
  "dimQuantity area_state = Num 1"
  by (simp_all add: example_defs isDTF_def tiersForSelectedItem_def totalDimPrice_def
      selectedMultiplier_def lengthInMeters_def widthInMeters_def toMeters_def num_or_def Let_def)

text \<open>
  C1: in the area flow (not the film tab), with a roll selected that resolves to a stock
  item, a tier selected that resolves among the tiers of the roll, a computed total that
  is a positive number and a quantity that is a non-zero number, the handler appends one
  line item, and its unit price times its quantity is
  lengthCm * widthCm * tierMultiplier * quantity + extraFee, where lengthCm and widthCm
  are the entered values converted to meters and multiplied by 100.
\<close>

theorem area_price_appended:
  assumes notdtf: "\<not> isDTF s"
    and roll: "selectedStockItem s \<noteq> []"
    and tier: "selectedTier s \<noteq> []"
    and tierres: "find (\<lambda>t. tier_id t = selectedTier s) (tiersForSelectedItem p s) = Some tr"
    and stock: "find (\<lambda>i. skuId i = selectedStockItem s) (stockItems p) = Some stockItem"
    and total: "totalDimPrice p s = Num t" "0 < t"
    and qty: "dimQuantity s = Num q" "q \<noteq> 0"
  shows "\<exists>item. quoteItems (fst (handleAddDimToQuote b p now s)) = quoteItems s @ [item]
           \<and> snd (handleAddDimToQuote b p now s) = []
           \<and> quantity item = dimQuantity s
           \<and> price item = ndiv (totalDimPrice p s) (dimQuantity s)
           \<and> nmul (price item) (quantity item) =
               nadd (nmul (nmul (nmul (nmul (toMeters (lengthVal s) (lengthUnit s)) (Num 100))
                                       (nmul (toMeters (widthVal s) (widthUnit s)) (Num 100)))
                                 (num_or (tier_value tr) (Num 0))) (dimQuantity s)) (extraAmount s)"
proof -
  have mult: "selectedMultiplier p s = num_or (tier_value tr) (Num 0)"
    using tier tierres by (simp add: selectedMultiplier_def)
  have formula: "totalDimPrice p s =
     nadd (nmul (nmul (nmul (nmul (toMeters (lengthVal s) (lengthUnit s)) (Num 100))
                             (nmul (toMeters (widthVal s) (widthUnit s)) (Num 100)))
                       (num_or (tier_value tr) (Num 0))) (dimQuantity s)) (extraAmount s)"
    using totalDimPrice_area [OF notdtf, of p] mult by simp
  have rt: "nmul (ndiv (totalDimPrice p s) (dimQuantity s)) (dimQuantity s) = totalDimPrice p s"
    using total qty by simp
  have pass: "\<not> nle (totalDimPrice p s) (Num 0)"
    using total by simp
  show ?thesis
    using notdtf roll tier stock pass rt formula
    by (simp add: handleAddDimToQuote_def Let_def)
qed

text \<open>
  The scenario of the claim: 100 cm by 60 cm, multiplier 5, one piece, no fee, total 30000.
\<close>

theorem area_price_appended_witness:
  "\<not> isDTF area_state
   \<and> selectedStockItem area_state \<noteq> []
   \<and> selectedTier area_state \<noteq> []
   \<and> totalDimPrice example_props area_state = Num 30000
   \<and> (\<exists>item. quoteItems (fst (handleAddDimToQuote example_builtins example_props ''1''
                                 area_state)) = [item]
         \<and> quantity item = Num 1
         \<and> price item = Num 30000
         \<and> nmul (price item) (quantity item) = Num 30000)"
proof -
  have pos: "(0::real) < 30000" and nz: "(1::real) \<noteq> 0" by simp_all
  from area_price_appended [OF area_state_facts(1-6) pos area_state_facts(7) nz,
      of example_builtins "''1''"]
  obtain item where
    "quoteItems (fst (handleAddDimToQuote example_builtins example_props ''1'' area_state))
       = quoteItems area_state @ [item]"
    "quantity item = dimQuantity area_state"
    "price item = ndiv (totalDimPrice example_props area_state) (dimQuantity area_state)"
    by blast
  then have "quoteItems (fst (handleAddDimToQuote example_builtins example_props ''1''
                                 area_state)) = [item]
         \<and> quantity item = Num 1
         \<and> price item = Num 30000
         \<and> nmul (price item) (quantity item) = Num 30000"
    by (simp add: area_state_facts) (simp add: area_state_def initial_state_def)
  then show ?thesis
    using area_state_facts by blast
qed

section \<open>Film presets\<close>

text \<open>
  C4: on the film tab with a preset selected, the computed total is the fixed amount of
  the preset (A4 5000, A3 10000) times the quantity plus the extra fee, whatever the
  length field holds; preset A4 with quantity 3 and no fee gives 15000 for every length.
\<close>

theorem film_preset_price:
  assumes dtf: "isDTF s" and preset: "dtfPreset s = Some preset"
  shows "totalDimPrice p s =
           nadd (nmul (case preset of A4 \<Rightarrow> Num 5000 | A3 \<Rightarrow> Num 10000) (dimQuantity s))
                (extraAmount s)
         \<and> totalDimPrice p (s\<lparr>lengthVal := x, lengthUnit := u\<rparr>) = totalDimPrice p s
         \<and> (preset = A4 \<and> dimQuantity s = Num 3 \<and> extraAmount s = Num 0
              \<longrightarrow> totalDimPrice p (s\<lparr>lengthVal := x, lengthUnit := u\<rparr>) = Num 15000)"
  using dtf preset by (cases preset) (simp_all add: totalDimPrice_def isDTF_def)

theorem film_preset_price_witness:
  "isDTF film_state \<and> dtfPreset film_state = Some A4
   \<and> dimQuantity film_state = Num 3 \<and> extraAmount film_state = Num 0
   \<and> totalDimPrice example_props film_state = Num 15000
   \<and> totalDimPrice example_props (film_state\<lparr>lengthVal := Num 7, lengthUnit := Unit_ft\<rparr>)
       = Num 15000"
proof -
  have h1: "isDTF film_state" and h2: "dtfPreset film_state = Some A4"
    and h3: "dimQuantity film_state = Num 3" and h4: "extraAmount film_state = Num 0"
    by (simp_all add: film_state_def initial_state_def isDTF_def)
  from film_preset_price [OF h1 h2, where p = example_props and x = "Num 7" and u = Unit_ft] h3 h4
  show ?thesis using h1 h2 by simp
qed

section \<open>Catalog products and the floor price\<close>

text \<open>
  C5: the catalog append checks, in this order, that a product is selected, that the
  quantity is greater than 0, and that the negotiated price is not below the floor of
  the product. A negotiated price below the floor is always rejected with the state, and
  so the quote list, unchanged; the rejection reports the floor amount when the quantity
  check before it passes.
\<close>

theorem below_floor_rejected:
  "(selectedProduct s = None \<longrightarrow>
      handleAddSimpleToQuote b now s
        = (s, [(''Please select a product from the filtered list.'', ''error'')]))
   \<and> (selectedProduct s = Some sp \<and> nle (simpleQuantity s) (Num 0) \<longrightarrow>
      handleAddSimpleToQuote b now s = (s, [(''Quantity must be greater than 0.'', ''error'')]))
   \<and> (selectedProduct s = Some sp \<and> \<not> nle (simpleQuantity s) (Num 0)
        \<and> nlt (negotiatedPrice s) (floorPrice sp) \<longrightarrow>
      handleAddSimpleToQuote b now s
        = (s, [(''Price cannot be below the minimum discount price of ''
                  @ formatUGX b (floorPrice sp) @ ''.'', ''error'')]))
   \<and> (selectedProduct s = Some sp \<and> nlt (negotiatedPrice s) (floorPrice sp) \<longrightarrow>
      fst (handleAddSimpleToQuote b now s) = s
      \<and> quoteItems (fst (handleAddSimpleToQuote b now s)) = quoteItems s
      \<and> length (quoteItems (fst (handleAddSimpleToQuote b now s))) = length (quoteItems s)
      \<and> snd (handleAddSimpleToQuote b now s) \<noteq> [])"
  by (simp add: handleAddSimpleToQuote_def)

lemma catalog_state_facts:
  "selectedProduct catalog_state = Some polo_shirt"
  "\<not> nle (simpleQuantity catalog_state) (Num 0)"
  "nlt (negotiatedPrice catalog_state) (floorPrice polo_shirt)"
  "floorPrice polo_shirt = Num 8000"
  by (simp_all add: catalog_state_def initial_state_def polo_shirt_def floorPrice_def
      opt_num_or_def num_or_def)

theorem below_floor_rejected_witness:
  "selectedProduct initial_state = None
   \<and> handleAddSimpleToQuote example_builtins ''1'' initial_state
        = (initial_state, [(''Please select a product from the filtered list.'', ''error'')])
   \<and> selectedProduct (catalog_state\<lparr>simpleQuantity := Num (- 2)\<rparr>) = Some polo_shirt
   \<and> nle (simpleQuantity (catalog_state\<lparr>simpleQuantity := Num (- 2)\<rparr>)) (Num 0)
   \<and> handleAddSimpleToQuote example_builtins ''1'' (catalog_state\<lparr>simpleQuantity := Num (- 2)\<rparr>)
        = (catalog_state\<lparr>simpleQuantity := Num (- 2)\<rparr>,
           [(''Quantity must be greater than 0.'', ''error'')])
   \<and> selectedProduct catalog_state = Some polo_shirt
   \<and> nlt (negotiatedPrice catalog_state) (floorPrice polo_shirt)
   \<and> handleAddSimpleToQuote example_builtins ''1'' catalog_state
        = (catalog_state,
           [(''Price cannot be below the minimum discount price of ''
               @ formatUGX example_builtins (Num 8000) @ ''.'', ''error'')])
   \<and> quoteItems (fst (handleAddSimpleToQuote example_builtins ''1'' catalog_state))
        = quoteItems catalog_state"
proof -
  have a: "selectedProduct initial_state = None"
    by (simp add: initial_state_def)
  have b: "selectedProduct (catalog_state\<lparr>simpleQuantity := Num (- 2)\<rparr>) = Some polo_shirt
           \<and> nle (simpleQuantity (catalog_state\<lparr>simpleQuantity := Num (- 2)\<rparr>)) (Num 0)"
    by (simp add: catalog_state_facts(1))
  have c: "selectedProduct catalog_state = Some polo_shirt
           \<and> \<not> nle (simpleQuantity catalog_state) (Num 0)
           \<and> nlt (negotiatedPrice catalog_state) (floorPrice polo_shirt)"
    by (simp add: catalog_state_facts(1-3))
  show ?thesis
    using a b c
      below_floor_rejected [where s = initial_state and b = example_builtins
        and now = "''1''" and sp = polo_shirt]
      below_floor_rejected [where s = "catalog_state\<lparr>simpleQuantity := Num (- 2)\<rparr>"
        and b = example_builtins and now = "''1''" and sp = polo_shirt]
      below_floor_rejected [where s = catalog_state and b = example_builtins
        and now = "''1''" and sp = polo_shirt]
    unfolding catalog_state_facts(4) by simp
qed

section \<open>The quote: removal and total\<close>

text \<open>Addition and multiplication of numbers are commutative, addition is associative.\<close>

lemma nadd_assoc: "nadd (nadd a b) c = nadd a (nadd b c)"
  by (cases a; cases b; cases c) simp_all

lemma nadd_commute: "nadd a b = nadd b a"
  by (cases a; cases b) simp_all

lemma nmul_commute: "nmul a b = nmul b a"
  by (cases a; cases b) simp_all

lemma nadd_zero_left: "nadd (Num 0) a = a"
  by (cases a) simp_all

lemma foldl_lines:
  "foldl (\<lambda>acc item. nadd acc (nmul (price item) (quantity item))) a items
     = nadd a (sum_lines items)"
proof (induction items arbitrary: a)
  case Nil
  show ?case by (cases a) simp_all
next
  case (Cons item items)
  show ?case
    by (simp add: Cons.IH nadd_assoc nmul_commute)
qed

lemma totalQuotePrice_sum: "totalQuotePrice s = sum_lines (quoteItems s)"
  by (simp add: totalQuotePrice_def foldl_lines nadd_zero_left)

lemma sum_lines_append: "sum_lines (xs @ ys) = nadd (sum_lines xs) (sum_lines ys)"
  by (induction xs) (simp_all add: nadd_zero_left nadd_assoc)

lemma filter_index:
  "map fst (filter (\<lambda>(_, j). j \<noteq> i) (zip xs [0..<length xs]))
     = take i xs @ drop (Suc i) xs"
proof (induction xs rule: rev_induct)
  case Nil
  show ?case by simp
next
  case (snoc x xs)
  have z: "zip (xs @ [x]) [0..<length (xs @ [x])] = zip xs [0..<length xs] @ [(x, length xs)]"
    by simp
  consider "i < length xs" | "i = length xs" | "length xs < i" by linarith
  then show ?case
  proof cases
    case 1
    then show ?thesis using snoc.IH by (simp add: z)
  next
    case 2
    then show ?thesis using snoc.IH by (simp add: z)
  next
    case 3
    then show ?thesis using snoc.IH by (simp add: z)
  qed
qed

lemma remove_take_drop:
  "quoteItems (handleRemoveQuoteItem i s) = take i (quoteItems s) @ drop (Suc i) (quoteItems s)"
  using filter_index [of i "quoteItems s"] by (simp add: handleRemoveQuoteItem_def)

lemma sum_lines_real:
  "\<forall>item \<in> set items. is_num (price item) \<and> is_num (quantity item) \<Longrightarrow>
     sum_lines items = Num (\<Sum>item\<leftarrow>items. num_val (quantity item) * num_val (price item))"
proof (induction items)
  case Nil
  show ?case by simp
next
  case (Cons item items)
  then obtain a b where "price item = Num a" "quantity item = Num b"
    by (cases "price item"; cases "quantity item") simp_all
  then show ?case using Cons by simp
qed

lemma nth_take_drop:
  "j < length xs - 1 \<Longrightarrow> (take i xs @ drop (Suc i) xs) ! j = xs ! (if j < i then j else Suc j)"
  by (auto simp add: nth_append min_def)

text \<open>
  C6: removing at a valid index removes exactly the item at that position and keeps the
  others in their order; the total is always the sum of quantity times unit price over
  the items in the list, so after a removal it is the sum over the remaining items (the
  total falls by the removed line), and after an append it rises by the appended line.
\<close>

theorem remove_and_total:
  assumes valid: "i < length (quoteItems s)"
  shows "quoteItems (handleRemoveQuoteItem i s)
           = take i (quoteItems s) @ drop (Suc i) (quoteItems s)
         \<and> length (quoteItems (handleRemoveQuoteItem i s)) = length (quoteItems s) - 1
         \<and> (\<forall>j < length (quoteItems s) - 1.
               quoteItems (handleRemoveQuoteItem i s) ! j
                 = quoteItems s ! (if j < i then j else Suc j))
         \<and> totalQuotePrice s = sum_lines (quoteItems s)
         \<and> totalQuotePrice (handleRemoveQuoteItem i s)
             = sum_lines (take i (quoteItems s) @ drop (Suc i) (quoteItems s))
         \<and> nadd (totalQuotePrice (handleRemoveQuoteItem i s))
                 (nmul (quantity (quoteItems s ! i)) (price (quoteItems s ! i)))
             = totalQuotePrice s
         \<and> totalQuotePrice (s\<lparr>quoteItems := quoteItems s @ [item]\<rparr>)
             = nadd (totalQuotePrice s) (nmul (quantity item) (price item))
         \<and> ((\<forall>it \<in> set (quoteItems s). is_num (price it) \<and> is_num (quantity it)) \<longrightarrow>
              totalQuotePrice (handleRemoveQuoteItem i s)
                = Num (\<Sum>it\<leftarrow>take i (quoteItems s) @ drop (Suc i) (quoteItems s).
                         num_val (quantity it) * num_val (price it)))"
proof -
  let ?qs = "quoteItems s"
  let ?line = "nmul (quantity (?qs ! i)) (price (?qs ! i))"
  have rm: "quoteItems (handleRemoveQuoteItem i s) = take i ?qs @ drop (Suc i) ?qs"
    by (rule remove_take_drop)
  have len: "length (quoteItems (handleRemoveQuoteItem i s)) = length ?qs - 1"
    using valid by (simp add: rm)
  have ord: "\<forall>j < length ?qs - 1.
               quoteItems (handleRemoveQuoteItem i s) ! j = ?qs ! (if j < i then j else Suc j)"
    using nth_take_drop [of _ ?qs i] by (simp add: rm)
  have tot: "totalQuotePrice (handleRemoveQuoteItem i s) = sum_lines (take i ?qs @ drop (Suc i) ?qs)"
    by (simp add: totalQuotePrice_sum rm)
  have split: "?qs = take i ?qs @ (?qs ! i) # drop (Suc i) ?qs"
    using valid by (simp add: id_take_nth_drop)
  have "sum_lines ?qs = sum_lines (take i ?qs @ (?qs ! i) # drop (Suc i) ?qs)"
    using split by simp
  also have "\<dots> = nadd (sum_lines (take i ?qs)) (nadd ?line (sum_lines (drop (Suc i) ?qs)))"
    by (simp add: sum_lines_append)
  also have "\<dots> = nadd (nadd (sum_lines (take i ?qs)) (sum_lines (drop (Suc i) ?qs))) ?line"
    by (metis nadd_assoc nadd_commute)
  finally have drop_line: "nadd (totalQuotePrice (handleRemoveQuoteItem i s)) ?line = totalQuotePrice s"
    by (simp add: rm sum_lines_append totalQuotePrice_sum)
  have app: "totalQuotePrice (s\<lparr>quoteItems := ?qs @ [item]\<rparr>)
               = nadd (totalQuotePrice s) (nmul (quantity item) (price item))"
    by (simp add: totalQuotePrice_sum sum_lines_append) (cases "nmul (quantity item) (price item)"; simp)
  have fin: "(\<forall>it \<in> set ?qs. is_num (price it) \<and> is_num (quantity it)) \<longrightarrow>
              totalQuotePrice (handleRemoveQuoteItem i s)
                = Num (\<Sum>it\<leftarrow>take i ?qs @ drop (Suc i) ?qs.
                         num_val (quantity it) * num_val (price it))"
  proof
    assume all: "\<forall>it \<in> set ?qs. is_num (price it) \<and> is_num (quantity it)"
    have "\<forall>it \<in> set (take i ?qs @ drop (Suc i) ?qs). is_num (price it) \<and> is_num (quantity it)"
      using all by (auto dest: in_set_takeD in_set_dropD)
    then show "totalQuotePrice (handleRemoveQuoteItem i s)
                = Num (\<Sum>it\<leftarrow>take i ?qs @ drop (Suc i) ?qs.
                         num_val (quantity it) * num_val (price it))"
      unfolding tot by (rule sum_lines_real)
  qed
  show ?thesis
    using rm len ord tot drop_line app fin totalQuotePrice_sum [of s] by blast
qed

theorem remove_and_total_witness:
  "(1::nat) < length (quoteItems quote_state)
   \<and> quoteItems (handleRemoveQuoteItem 1 quote_state) = [item_a, item_c]
   \<and> totalQuotePrice quote_state = Num 68000
   \<and> totalQuotePrice (handleRemoveQuoteItem 1 quote_state) = Num 50000
   \<and> nadd (totalQuotePrice (handleRemoveQuoteItem 1 quote_state)) (Num 18000)
       = totalQuotePrice quote_state"
proof -
  have qs: "quoteItems quote_state = [item_a, item_b, item_c]"
    by (simp add: quote_state_def)
  have valid: "(1::nat) < length (quoteItems quote_state)"
    by (simp add: qs)
  have fin: "\<forall>it \<in> set (quoteItems quote_state). is_num (price it) \<and> is_num (quantity it)"
    by (simp add: qs item_a_def item_b_def item_c_def)
  from remove_and_total [OF valid, where item = item_a] fin
  show ?thesis
    using valid by (simp add: qs item_a_def item_b_def item_c_def)
qed

section \<open>Submission\<close>

text \<open>
  C7 (amended): with an empty quote the submission is refused with an error toast and the
  collaborator is not called; with a non-empty quote the whole ordered list is handed to
  the collaborator, and the quote is cleared as soon as the call of the collaborator
  returns, whether the sale creation it started succeeds or fails: the handler does not
  await or inspect the outcome. The quote keeps its items only when the call itself throws.
\<close>

theorem submit_quote:
  "(quoteItems s = [] \<longrightarrow>
      handleCreateSaleClick onCreateSale s
        = \<lparr>state_after = s,
           toasts = [(''Your quote is empty. Add items to create a sale.'', ''error'')],
           calls = [], thrown = None\<rparr>)
   \<and> (quoteItems s \<noteq> [] \<longrightarrow>
        calls (handleCreateSaleClick onCreateSale s) = [quoteItems s]
        \<and> toasts (handleCreateSaleClick onCreateSale s) = [])
   \<and> (quoteItems s \<noteq> [] \<and> onCreateSale (quoteItems s) = Returns created \<longrightarrow>
        quoteItems (state_after (handleCreateSaleClick onCreateSale s)) = []
        \<and> state_after (handleCreateSaleClick onCreateSale s) = handleClearQuote s
        \<and> thrown (handleCreateSaleClick onCreateSale s) = None)
   \<and> (quoteItems s \<noteq> [] \<and> onCreateSale (quoteItems s) = Throws e \<longrightarrow>
        state_after (handleCreateSaleClick onCreateSale s) = s
        \<and> quoteItems (state_after (handleCreateSaleClick onCreateSale s)) = quoteItems s
        \<and> thrown (handleCreateSaleClick onCreateSale s) = Some e)"
  by (simp add: handleCreateSaleClick_def handleClearQuote_def split: handoff.split)

theorem submit_quote_witness:
  "quoteItems initial_state = []
   \<and> calls (handleCreateSaleClick (\<lambda>items. Returns True :: string handoff) initial_state) = []
   \<and> quoteItems quote_state \<noteq> []
   \<and> calls (handleCreateSaleClick (\<lambda>items. Returns True :: string handoff) quote_state)
       = [[item_a, item_b, item_c]]
   \<and> quoteItems (state_after (handleCreateSaleClick (\<lambda>items. Returns True :: string handoff)
        quote_state)) = []
   \<and> quoteItems (state_after (handleCreateSaleClick (\<lambda>items. Returns False :: string handoff)
        quote_state)) = []
   \<and> calls (handleCreateSaleClick (\<lambda>items. Throws ''TypeError'') quote_state)
       = [[item_a, item_b, item_c]]
   \<and> quoteItems (state_after (handleCreateSaleClick (\<lambda>items. Throws ''TypeError'') quote_state))
       = [item_a, item_b, item_c]
   \<and> thrown (handleCreateSaleClick (\<lambda>items. Throws ''TypeError'') quote_state)
       = Some ''TypeError''"
proof -
  have e: "quoteItems initial_state = []"
    by (simp add: initial_state_def)
  have qs: "quoteItems quote_state = [item_a, item_b, item_c]"
    by (simp add: quote_state_def)
  have ne: "quoteItems quote_state \<noteq> []"
    by (simp add: qs)
  show ?thesis
    using e ne
      submit_quote [where s = initial_state
        and onCreateSale = "\<lambda>items. Returns True :: string handoff"]
      submit_quote [where s = quote_state
        and onCreateSale = "\<lambda>items. Returns True :: string handoff" and created = True]
      submit_quote [where s = quote_state
        and onCreateSale = "\<lambda>items. Returns False :: string handoff" and created = False]
      submit_quote [where s = quote_state and onCreateSale = "\<lambda>items. Throws ''TypeError''"
        and e = "''TypeError''"]
    by (simp add: qs handleClearQuote_def)
qed

text \<open>
  The claim as stated fails for a handoff that fails after the call has returned: the
  quote of three items is handed over and cleared though the sale creation fails.
\<close>

theorem submit_quote_counterexample:
  "quoteItems quote_state = [item_a, item_b, item_c]
   \<and> calls (handleCreateSaleClick (\<lambda>items. Returns False :: string handoff) quote_state)
       = [[item_a, item_b, item_c]]
   \<and> thrown (handleCreateSaleClick (\<lambda>items. Returns False :: string handoff) quote_state) = None
   \<and> toasts (handleCreateSaleClick (\<lambda>items. Returns False :: string handoff) quote_state) = []
   \<and> quoteItems (state_after (handleCreateSaleClick (\<lambda>items. Returns False :: string handoff)
        quote_state)) = []"
  by (simp add: handleCreateSaleClick_def handleClearQuote_def quote_state_def)

section \<open>The price gate of the append operations\<close>

lemma dim_rejects_nonpositive:
  "nle (totalDimPrice p s) (Num 0) \<Longrightarrow>
     fst (handleAddDimToQuote b p now s) = s \<and> snd (handleAddDimToQuote b p now s) \<noteq> []"
  by (simp add: handleAddDimToQuote_def)

lemma manual_rejects_nonpositive:
  "nle (manualPrice s) (Num 0) \<or> nle (manualQuantity s) (Num 0) \<Longrightarrow>
     fst (handleAddManualToQuote b now s) = s \<and> snd (handleAddManualToQuote b now s) \<noteq> []"
  by (auto simp add: handleAddManualToQuote_def)

lemma dim_inserted:
  assumes "quoteItems (fst (handleAddDimToQuote b p now s)) \<noteq> quoteItems s"
  shows "\<not> nle (totalDimPrice p s) (Num 0)
         \<and> (\<exists>item. quoteItems (fst (handleAddDimToQuote b p now s)) = quoteItems s @ [item]
               \<and> quantity item = dimQuantity s
               \<and> price item = ndiv (totalDimPrice p s) (dimQuantity s))"
  using assms
  by (auto simp add: handleAddDimToQuote_def Let_def split: if_splits option.splits)

lemma manual_inserted:
  assumes "quoteItems (fst (handleAddManualToQuote b now s)) \<noteq> quoteItems s"
  shows "\<not> nle (manualPrice s) (Num 0) \<and> \<not> nle (manualQuantity s) (Num 0)
         \<and> (\<exists>item. quoteItems (fst (handleAddManualToQuote b now s)) = quoteItems s @ [item]
               \<and> quantity item = manualQuantity s
               \<and> price item = manualPrice s)"
  using assms
  by (auto simp add: handleAddManualToQuote_def Let_def split: if_splits)

lemma simple_inserted:
  assumes "quoteItems (fst (handleAddSimpleToQuote b now s)) \<noteq> quoteItems s"
  shows "\<exists>sp. selectedProduct s = Some sp
         \<and> \<not> nle (simpleQuantity s) (Num 0) \<and> \<not> nlt (negotiatedPrice s) (floorPrice sp)
         \<and> (\<exists>item. quoteItems (fst (handleAddSimpleToQuote b now s)) = quoteItems s @ [item]
               \<and> quantity item = simpleQuantity s
               \<and> price item = nadd (negotiatedPrice s) (ndiv (extraAmount s) (simpleQuantity s)))"
  using assms
  by (auto simp add: handleAddSimpleToQuote_def Let_def split: if_splits option.splits)

lemma positive_over_positive:
  "\<not> nle t (Num 0) \<Longrightarrow> \<not> isNaN t \<Longrightarrow> 0 < q \<Longrightarrow> nle (Num 0) (ndiv t (Num q))"
  by (cases t) (simp_all add: not_le)

lemma area_append_eval:
  "totalDimPrice example_props area_state = Num 30000"
  "dimQuantity area_state = Num 1"
  "quoteItems area_state = []"
  "map price (quoteItems (fst (handleAddDimToQuote example_builtins example_props ''1''
      area_state))) = [Num 30000]"
  by (simp_all add: handleAddDimToQuote_def example_defs eval_defs)

lemma zero_length_eval:
  "totalDimPrice example_props (area_state\<lparr>lengthVal := Num 0\<rparr>) = Num 0"
  by (simp add: example_defs eval_defs)

lemma manual_append_eval:
  "manualPrice (manual_state\<lparr>manualPrice := Num 0\<rparr>) = Num 0"
  "manualPrice manual_state = Num 20000"
  "quoteItems manual_state = []"
  "map price (quoteItems (fst (handleAddManualToQuote example_builtins ''1'' manual_state)))
     = [Num 20000]"
  "handleAddManualToQuote example_builtins ''1'' (manual_state\<lparr>manualPrice := Num 0\<rparr>)
     = (manual_state\<lparr>manualPrice := Num 0\<rparr>, [(''Price must be greater than zero.'', ''error'')])"
  by (simp_all add: handleAddManualToQuote_def example_defs eval_defs)

lemma offer_eval:
  "selectedProduct offer_state = Some polo_shirt"
  "floorPrice polo_shirt = Num 8000"
  "negotiatedPrice offer_state = Num 9000"
  "extraAmount offer_state = Num 1000"
  "simpleQuantity offer_state = Num 2"
  "quoteItems offer_state = []"
  "map price (quoteItems (fst (handleAddSimpleToQuote example_builtins ''1'' offer_state)))
     = [Num 9500]"
  by (simp_all add: handleAddSimpleToQuote_def example_defs eval_defs offer_state_def)

text \<open>
  C2 (amended): the area and film append rejects, before insertion and with the state and
  so the quote unchanged, when its computed total is not positive; the manual append does
  so when the entered price or the entered quantity is not positive (it does not read
  the aggregate); the catalog append does not check the aggregate (it checks the product,
  the quantity and the floor). An inserted line item has a non-negative unit price in the
  area and film flow when the computed total is not \<open>NaN\<close> and the quantity is a positive
  number, a positive unit price in the manual flow when the entered price is not \<open>NaN\<close>,
  and a non-negative unit price in the catalog flow when the effective floor is not
  negative, the fee is a non-negative number and the price and quantity are numbers.
\<close>

theorem append_price_gate:
  "(nle (totalDimPrice p s) (Num 0) \<longrightarrow>
      fst (handleAddDimToQuote b p now s) = s \<and> snd (handleAddDimToQuote b p now s) \<noteq> [])
   \<and> (nle (manualPrice s) (Num 0) \<or> nle (manualQuantity s) (Num 0) \<longrightarrow>
      fst (handleAddManualToQuote b now s) = s \<and> snd (handleAddManualToQuote b now s) \<noteq> [])
   \<and> (quoteItems (fst (handleAddDimToQuote b p now s)) \<noteq> quoteItems s
        \<and> \<not> isNaN (totalDimPrice p s) \<and> dimQuantity s = Num q \<and> 0 < q \<longrightarrow>
      (\<exists>item. quoteItems (fst (handleAddDimToQuote b p now s)) = quoteItems s @ [item]
         \<and> price item = ndiv (totalDimPrice p s) (dimQuantity s)
         \<and> nle (Num 0) (price item)))
   \<and> (quoteItems (fst (handleAddManualToQuote b now s)) \<noteq> quoteItems s
        \<and> \<not> isNaN (manualPrice s) \<longrightarrow>
      (\<exists>item. quoteItems (fst (handleAddManualToQuote b now s)) = quoteItems s @ [item]
         \<and> price item = manualPrice s
         \<and> nlt (Num 0) (price item)))
   \<and> (quoteItems (fst (handleAddSimpleToQuote b now s)) \<noteq> quoteItems s
        \<and> selectedProduct s = Some sp \<and> nle (Num 0) (floorPrice sp)
        \<and> negotiatedPrice s = Num n \<and> extraAmount s = Num e \<and> 0 \<le> e
        \<and> simpleQuantity s = Num k \<longrightarrow>
      (\<exists>item. quoteItems (fst (handleAddSimpleToQuote b now s)) = quoteItems s @ [item]
         \<and> price item = nadd (negotiatedPrice s) (ndiv (extraAmount s) (simpleQuantity s))
         \<and> nle (Num 0) (price item)))"
proof -
  have d1: "nle (totalDimPrice p s) (Num 0) \<longrightarrow>
      fst (handleAddDimToQuote b p now s) = s \<and> snd (handleAddDimToQuote b p now s) \<noteq> []"
    using dim_rejects_nonpositive by blast
  have m1: "nle (manualPrice s) (Num 0) \<or> nle (manualQuantity s) (Num 0) \<longrightarrow>
      fst (handleAddManualToQuote b now s) = s \<and> snd (handleAddManualToQuote b now s) \<noteq> []"
    using manual_rejects_nonpositive by blast
  have d2: "quoteItems (fst (handleAddDimToQuote b p now s)) \<noteq> quoteItems s
        \<and> \<not> isNaN (totalDimPrice p s) \<and> dimQuantity s = Num q \<and> 0 < q \<longrightarrow>
      (\<exists>item. quoteItems (fst (handleAddDimToQuote b p now s)) = quoteItems s @ [item]
         \<and> price item = ndiv (totalDimPrice p s) (dimQuantity s)
         \<and> nle (Num 0) (price item))"
  proof
    assume a: "quoteItems (fst (handleAddDimToQuote b p now s)) \<noteq> quoteItems s
        \<and> \<not> isNaN (totalDimPrice p s) \<and> dimQuantity s = Num q \<and> 0 < q"
    from dim_inserted [of b p now s] a
    obtain item where ins: "quoteItems (fst (handleAddDimToQuote b p now s)) = quoteItems s @ [item]"
      and pr: "price item = ndiv (totalDimPrice p s) (dimQuantity s)"
      and pass: "\<not> nle (totalDimPrice p s) (Num 0)"
      by auto
    have "nle (Num 0) (ndiv (totalDimPrice p s) (Num q))"
      using positive_over_positive [of "totalDimPrice p s" q] pass a by blast
    then have "nle (Num 0) (price item)" using pr a by simp
    then show "\<exists>item. quoteItems (fst (handleAddDimToQuote b p now s)) = quoteItems s @ [item]
         \<and> price item = ndiv (totalDimPrice p s) (dimQuantity s)
         \<and> nle (Num 0) (price item)"
      using ins pr by blast
  qed
  have m2: "quoteItems (fst (handleAddManualToQuote b now s)) \<noteq> quoteItems s
        \<and> \<not> isNaN (manualPrice s) \<longrightarrow>
      (\<exists>item. quoteItems (fst (handleAddManualToQuote b now s)) = quoteItems s @ [item]
         \<and> price item = manualPrice s
         \<and> nlt (Num 0) (price item))"
  proof
    assume a: "quoteItems (fst (handleAddManualToQuote b now s)) \<noteq> quoteItems s
        \<and> \<not> isNaN (manualPrice s)"
    from manual_inserted [of b now s] a
    obtain item where ins: "quoteItems (fst (handleAddManualToQuote b now s)) = quoteItems s @ [item]"
      and pr: "price item = manualPrice s"
      and pass: "\<not> nle (manualPrice s) (Num 0)"
      by auto
    have "nlt (Num 0) (manualPrice s)"
      using pass a by (cases "manualPrice s") simp_all
    then show "\<exists>item. quoteItems (fst (handleAddManualToQuote b now s)) = quoteItems s @ [item]
         \<and> price item = manualPrice s
         \<and> nlt (Num 0) (price item)"
      using ins pr by auto
  qed
  have s2: "quoteItems (fst (handleAddSimpleToQuote b now s)) \<noteq> quoteItems s
        \<and> selectedProduct s = Some sp \<and> nle (Num 0) (floorPrice sp)
        \<and> negotiatedPrice s = Num n \<and> extraAmount s = Num e \<and> 0 \<le> e
        \<and> simpleQuantity s = Num k \<longrightarrow>
      (\<exists>item. quoteItems (fst (handleAddSimpleToQuote b now s)) = quoteItems s @ [item]
         \<and> price item = nadd (negotiatedPrice s) (ndiv (extraAmount s) (simpleQuantity s))
         \<and> nle (Num 0) (price item))"
  proof
    assume a: "quoteItems (fst (handleAddSimpleToQuote b now s)) \<noteq> quoteItems s
        \<and> selectedProduct s = Some sp \<and> nle (Num 0) (floorPrice sp)
        \<and> negotiatedPrice s = Num n \<and> extraAmount s = Num e \<and> 0 \<le> e
        \<and> simpleQuantity s = Num k"
    from simple_inserted [of b now s] a
    obtain item where ins: "quoteItems (fst (handleAddSimpleToQuote b now s)) = quoteItems s @ [item]"
      and pr: "price item = nadd (negotiatedPrice s) (ndiv (extraAmount s) (simpleQuantity s))"
      and kpos: "\<not> nle (Num k) (Num 0)" and fl: "\<not> nlt (Num n) (floorPrice sp)"
      by auto
    have k0: "0 < k" using kpos by (simp add: not_le)
    have n0: "0 \<le> n" using fl a by (cases "floorPrice sp") (simp_all add: not_less)
    have "nle (Num 0) (nadd (Num n) (ndiv (Num e) (Num k)))"
      using n0 k0 a by simp
    then have "nle (Num 0) (price item)" using pr a by simp
    then show "\<exists>item. quoteItems (fst (handleAddSimpleToQuote b now s)) = quoteItems s @ [item]
         \<and> price item = nadd (negotiatedPrice s) (ndiv (extraAmount s) (simpleQuantity s))
         \<and> nle (Num 0) (price item)"
      using ins pr by blast
  qed
  show ?thesis using d1 m1 d2 m2 s2 by blast
qed

theorem append_price_gate_witness:
  "nle (totalDimPrice example_props (area_state\<lparr>lengthVal := Num 0\<rparr>)) (Num 0)
   \<and> fst (handleAddDimToQuote example_builtins example_props ''1''
            (area_state\<lparr>lengthVal := Num 0\<rparr>)) = area_state\<lparr>lengthVal := Num 0\<rparr>
   \<and> nle (manualPrice (manual_state\<lparr>manualPrice := Num 0\<rparr>)) (Num 0)
   \<and> handleAddManualToQuote example_builtins ''1'' (manual_state\<lparr>manualPrice := Num 0\<rparr>)
       = (manual_state\<lparr>manualPrice := Num 0\<rparr>, [(''Price must be greater than zero.'', ''error'')])
   \<and> quoteItems (fst (handleAddDimToQuote example_builtins example_props ''1'' area_state))
       \<noteq> quoteItems area_state
   \<and> (\<exists>item. quoteItems (fst (handleAddDimToQuote example_builtins example_props ''1''
                                area_state)) = quoteItems area_state @ [item]
         \<and> price item = Num 30000 \<and> nle (Num 0) (price item))
   \<and> quoteItems (fst (handleAddManualToQuote example_builtins ''1'' manual_state))
       \<noteq> quoteItems manual_state
   \<and> (\<exists>item. quoteItems (fst (handleAddManualToQuote example_builtins ''1'' manual_state))
                = quoteItems manual_state @ [item]
         \<and> price item = Num 20000 \<and> nlt (Num 0) (price item))
   \<and> quoteItems (fst (handleAddSimpleToQuote example_builtins ''1'' offer_state))
       \<noteq> quoteItems offer_state
   \<and> (\<exists>item. quoteItems (fst (handleAddSimpleToQuote example_builtins ''1'' offer_state))
                = quoteItems offer_state @ [item]
         \<and> price item = Num 9500 \<and> nle (Num 0) (price item))"
proof -
  have i1: "quoteItems (fst (handleAddDimToQuote example_builtins example_props ''1'' area_state))
       \<noteq> quoteItems area_state"
    using area_append_eval(4) by (auto simp add: area_append_eval(3))
  have i2: "quoteItems (fst (handleAddManualToQuote example_builtins ''1'' manual_state))
       \<noteq> quoteItems manual_state"
    using manual_append_eval(4) by (auto simp add: manual_append_eval(3))
  have i3: "quoteItems (fst (handleAddSimpleToQuote example_builtins ''1'' offer_state))
       \<noteq> quoteItems offer_state"
    using offer_eval(7) by (auto simp add: offer_eval(6))
  have g1: "nle (totalDimPrice example_props (area_state\<lparr>lengthVal := Num 0\<rparr>)) (Num 0)"
    by (simp add: zero_length_eval)
  have g2: "nle (manualPrice (manual_state\<lparr>manualPrice := Num 0\<rparr>)) (Num 0)"
    by simp
  have r1: "fst (handleAddDimToQuote example_builtins example_props ''1''
            (area_state\<lparr>lengthVal := Num 0\<rparr>)) = area_state\<lparr>lengthVal := Num 0\<rparr>"
    using g1 append_price_gate [where s = "area_state\<lparr>lengthVal := Num 0\<rparr>"
        and p = example_props and b = example_builtins and now = "''1''"]
    by blast
  have r2: "fst (handleAddManualToQuote example_builtins ''1'' (manual_state\<lparr>manualPrice := Num 0\<rparr>))
              = manual_state\<lparr>manualPrice := Num 0\<rparr>"
    using g2 append_price_gate [where s = "manual_state\<lparr>manualPrice := Num 0\<rparr>"
        and b = example_builtins and now = "''1''"]
    by blast
  have a1: "\<exists>item. quoteItems (fst (handleAddDimToQuote example_builtins example_props ''1''
                                area_state)) = quoteItems area_state @ [item]
         \<and> price item = Num 30000 \<and> nle (Num 0) (price item)"
    using i1 append_price_gate [where s = area_state and p = example_props
        and b = example_builtins and now = "''1''" and q = 1]
    by (simp add: area_append_eval(1,2))
  have a2: "\<exists>item. quoteItems (fst (handleAddManualToQuote example_builtins ''1'' manual_state))
                = quoteItems manual_state @ [item]
         \<and> price item = Num 20000 \<and> nlt (Num 0) (price item)"
    using i2 append_price_gate [where s = manual_state and b = example_builtins and now = "''1''"]
    by (simp add: manual_append_eval(2))
  have a3: "\<exists>item. quoteItems (fst (handleAddSimpleToQuote example_builtins ''1'' offer_state))
                = quoteItems offer_state @ [item]
         \<and> price item = Num 9500 \<and> nle (Num 0) (price item)"
    using i3 append_price_gate [where s = offer_state and b = example_builtins and now = "''1''"
        and sp = polo_shirt and n = 9000 and e = 1000 and k = 2]
    by (simp add: offer_eval(1-5))
  show ?thesis
    using g1 g2 r1 r2 i1 i2 i3 a1 a2 a3 manual_append_eval(5) by blast
qed

text \<open>
  The claim as stated fails in the catalog flow: the unpriced product at price 0 has the
  aggregate 0 and is inserted, and a fee of -20000 on the polo shirt at 8000 inserts a
  line item with the unit price -12000.
\<close>

theorem append_price_gate_counterexample:
  "nle (totalSimplePrice free_state) (Num 0)
   \<and> quoteItems free_state = []
   \<and> map price (quoteItems (fst (handleAddSimpleToQuote example_builtins ''1'' free_state)))
       = [Num 0]
   \<and> nle (totalSimplePrice rebate_state) (Num 0)
   \<and> quoteItems rebate_state = []
   \<and> map price (quoteItems (fst (handleAddSimpleToQuote example_builtins ''1'' rebate_state)))
       = [Num (- 12000)]"
  by (simp add: handleAddSimpleToQuote_def example_defs eval_defs)

section \<open>Entered dimensions\<close>

lemma MAX_VALUE_large: "10 ^ 300 \<le> MAX_VALUE"
proof -
  have "(10::real) ^ 300 = (10 ^ 3) ^ 100" by (simp add: power_mult [symmetric])
  also have "\<dots> \<le> (2 ^ 10) ^ 100" by (rule power_mono) simp_all
  also have "\<dots> = 2 ^ 1000" by (simp add: power_mult [symmetric])
  also have "\<dots> \<le> (2::real) ^ 1023" by (rule power_increasing) simp_all
  also have "\<dots> \<le> (2 - 1 / 2 ^ 52) * 2 ^ 1023"
  proof -
    have "(1::real) \<le> 2 - 1 / 2 ^ 52" by simp
    then have "1 * (2::real) ^ 1023 \<le> (2 - 1 / 2 ^ 52) * 2 ^ 1023"
      by (rule mult_right_mono) simp
    then show ?thesis by simp
  qed
  finally show ?thesis by (simp add: MAX_VALUE_def)
qed

lemma finite_double_small: "\<bar>a\<bar> \<le> 10 ^ 300 \<Longrightarrow> finite_double (Num a)"
  using MAX_VALUE_large by simp

lemma finite_double_is_num: "finite_double a \<Longrightarrow> is_num a"
  by (cases a) simp_all

lemma toMeters_zero: "toMeters (Num 0) u = Num 0"
  by (cases u) (simp_all add: toMeters_def)

lemma nmul_zero_num: "is_num a \<Longrightarrow> nmul (Num 0) a = Num 0" "is_num a \<Longrightarrow> nmul a (Num 0) = Num 0"
  by (cases a; simp)+

lemma zero_area_total:
  assumes "\<not> isDTF s" "lengthVal s = Num 0 \<or> widthVal s = Num 0"
    "finite_double (nmul (lengthInMeters s) (Num 100))"
    "finite_double (nmul (widthInMeters s) (Num 100))"
    "is_num (selectedMultiplier p s)" "is_num (dimQuantity s)"
  shows "totalDimPrice p s = nadd (Num 0) (extraAmount s)"
proof -
  let ?l = "nmul (lengthInMeters s) (Num 100)"
  let ?w = "nmul (widthInMeters s) (Num 100)"
  have fl: "is_num ?l" and fw: "is_num ?w"
    using assms(3,4) by (simp_all add: finite_double_is_num)
  have "?l = Num 0 \<or> ?w = Num 0"
    using assms(2) by (auto simp add: lengthInMeters_def widthInMeters_def toMeters_zero)
  then have "nmul ?l ?w = Num 0"
    using fl fw by (auto simp add: nmul_zero_num)
  then have "nmul (nmul (nmul ?l ?w) (selectedMultiplier p s)) (dimQuantity s) = Num 0"
    using assms(5,6) by (simp add: nmul_zero_num)
  then show ?thesis
    using assms(1) by (simp add: totalDimPrice_def Let_def)
qed

lemma zero_film_total:
  assumes "isDTF s" "dtfPreset s = None" "lengthVal s = Num 0" "is_num (dimQuantity s)"
  shows "totalDimPrice p s = nadd (Num 0) (extraAmount s)"
  using assms
  by (simp add: totalDimPrice_def lengthInMeters_def toMeters_zero nmul_zero_num)

lemma blank_width_eval:
  "\<not> isDTF (width_onChange NaN area_state)"
  "widthVal (width_onChange NaN area_state) = Num 0"
  "nmul (lengthInMeters (width_onChange NaN area_state)) (Num 100) = Num 100"
  "nmul (widthInMeters (width_onChange NaN area_state)) (Num 100) = Num 0"
  "is_num (selectedMultiplier example_props (width_onChange NaN area_state))"
  "is_num (dimQuantity (width_onChange NaN area_state))"
  "extraAmount (width_onChange NaN area_state) = Num 0"
  by (simp_all add: example_defs eval_defs)

lemma blank_length_eval:
  "isDTF (length_onChange NaN film_state)"
  "dtfPreset (length_onChange NaN film_state) = None"
  "lengthVal (length_onChange NaN film_state) = Num 0"
  "is_num (dimQuantity (length_onChange NaN film_state))"
  "extraAmount (length_onChange NaN film_state) = Num 0"
  by (simp_all add: example_defs eval_defs)

text \<open>
  C8 (amended): a non-numeric entry in the length or the width field is stored as zero,
  so the converted-dimensions display shows the conversions of zero; a numeric entry
  other than zero, a negative one too, is stored and displayed as entered. The append
  validates no dimension by itself: it rejects when the computed total is not positive.
  So a zero length or width is rejected in the area flow when both converted dimensions
  are in the range of the finite doubles, the multiplier and the quantity are numbers and
  the extra fee is a number that is not positive; a zero length is rejected in the film
  flow without preset when the quantity is a number and the fee a number that is not
  positive.
\<close>

theorem dimension_input_handling:
  "(lengthVal (length_onChange NaN s) = Num 0
      \<and> lengthInMeters (length_onChange NaN s) = Num 0
      \<and> conversions b (lengthInMeters (length_onChange NaN s)) = conversions b (Num 0)
      \<and> fromMeters (lengthInMeters (length_onChange NaN s)) u = Num 0)
   \<and> (widthVal (width_onChange NaN s) = Num 0
      \<and> widthInMeters (width_onChange NaN s) = Num 0
      \<and> conversions b (widthInMeters (width_onChange NaN s)) = conversions b (Num 0)
      \<and> fromMeters (widthInMeters (width_onChange NaN s)) u = Num 0)
   \<and> (r \<noteq> 0 \<longrightarrow> lengthVal (length_onChange (Num r) s) = Num r
                  \<and> widthVal (width_onChange (Num r) s) = Num r)
   \<and> (nle (totalDimPrice p s) (Num 0) \<longrightarrow>
        fst (handleAddDimToQuote b p now s) = s \<and> snd (handleAddDimToQuote b p now s) \<noteq> [])
   \<and> (\<not> isDTF s \<and> (lengthVal s = Num 0 \<or> widthVal s = Num 0)
        \<and> finite_double (nmul (lengthInMeters s) (Num 100))
        \<and> finite_double (nmul (widthInMeters s) (Num 100))
        \<and> is_num (selectedMultiplier p s)
        \<and> is_num (dimQuantity s) \<and> extraAmount s = Num e \<and> e \<le> 0 \<longrightarrow>
        fst (handleAddDimToQuote b p now s) = s \<and> snd (handleAddDimToQuote b p now s) \<noteq> [])
   \<and> (isDTF s \<and> dtfPreset s = None \<and> lengthVal s = Num 0
        \<and> is_num (dimQuantity s) \<and> extraAmount s = Num e \<and> e \<le> 0 \<longrightarrow>
        fst (handleAddDimToQuote b p now s) = s \<and> snd (handleAddDimToQuote b p now s) \<noteq> [])"
proof -
  have lz: "lengthVal (length_onChange NaN s) = Num 0"
    by (simp add: length_onChange_def num_or_def Let_def)
  have lm: "lengthInMeters (length_onChange NaN s) = Num 0"
    by (simp add: lengthInMeters_def lz toMeters_zero)
  have wz: "widthVal (width_onChange NaN s) = Num 0"
    by (simp add: width_onChange_def num_or_def)
  have wm: "widthInMeters (width_onChange NaN s) = Num 0"
    by (simp add: widthInMeters_def wz toMeters_zero)
  have fz: "fromMeters (Num 0) u = Num 0"
    by (cases u) simp_all
  have keep: "r \<noteq> 0 \<longrightarrow> lengthVal (length_onChange (Num r) s) = Num r
                  \<and> widthVal (width_onChange (Num r) s) = Num r"
    by (simp add: length_onChange_def width_onChange_def num_or_def Let_def)
  have gate: "nle (totalDimPrice p s) (Num 0) \<longrightarrow>
        fst (handleAddDimToQuote b p now s) = s \<and> snd (handleAddDimToQuote b p now s) \<noteq> []"
    by (simp add: handleAddDimToQuote_def)
  have area: "\<not> isDTF s \<and> (lengthVal s = Num 0 \<or> widthVal s = Num 0)
        \<and> finite_double (nmul (lengthInMeters s) (Num 100))
        \<and> finite_double (nmul (widthInMeters s) (Num 100))
        \<and> is_num (selectedMultiplier p s)
        \<and> is_num (dimQuantity s) \<and> extraAmount s = Num e \<and> e \<le> 0 \<longrightarrow>
        fst (handleAddDimToQuote b p now s) = s \<and> snd (handleAddDimToQuote b p now s) \<noteq> []"
  proof
    assume a: "\<not> isDTF s \<and> (lengthVal s = Num 0 \<or> widthVal s = Num 0)
        \<and> finite_double (nmul (lengthInMeters s) (Num 100))
        \<and> finite_double (nmul (widthInMeters s) (Num 100))
        \<and> is_num (selectedMultiplier p s)
        \<and> is_num (dimQuantity s) \<and> extraAmount s = Num e \<and> e \<le> 0"
    then have "totalDimPrice p s = nadd (Num 0) (extraAmount s)"
      using zero_area_total [of s p] by blast
    then have "nle (totalDimPrice p s) (Num 0)" using a by simp
    then show "fst (handleAddDimToQuote b p now s) = s \<and> snd (handleAddDimToQuote b p now s) \<noteq> []"
      using gate by blast
  qed
  have film: "isDTF s \<and> dtfPreset s = None \<and> lengthVal s = Num 0
        \<and> is_num (dimQuantity s) \<and> extraAmount s = Num e \<and> e \<le> 0 \<longrightarrow>
        fst (handleAddDimToQuote b p now s) = s \<and> snd (handleAddDimToQuote b p now s) \<noteq> []"
  proof
    assume a: "isDTF s \<and> dtfPreset s = None \<and> lengthVal s = Num 0
        \<and> is_num (dimQuantity s) \<and> extraAmount s = Num e \<and> e \<le> 0"
    then have "totalDimPrice p s = nadd (Num 0) (extraAmount s)"
      using zero_film_total [of s p] by blast
    then have "nle (totalDimPrice p s) (Num 0)" using a by simp
    then show "fst (handleAddDimToQuote b p now s) = s \<and> snd (handleAddDimToQuote b p now s) \<noteq> []"
      using gate by blast
  qed
  show ?thesis
    using lz lm wz wm keep gate area film by (simp add: fz)
qed

theorem dimension_input_handling_witness:
  "lengthVal (length_onChange NaN area_state) = Num 0
   \<and> fromMeters (lengthInMeters (length_onChange NaN area_state)) Unit_cm = Num 0
   \<and> lengthVal (length_onChange (Num (- 100)) area_state) = Num (- 100)
   \<and> \<not> isDTF (width_onChange NaN area_state)
   \<and> widthVal (width_onChange NaN area_state) = Num 0
   \<and> finite_double (nmul (lengthInMeters (width_onChange NaN area_state)) (Num 100))
   \<and> finite_double (nmul (widthInMeters (width_onChange NaN area_state)) (Num 100))
   \<and> fst (handleAddDimToQuote example_builtins example_props ''1''
            (width_onChange NaN area_state)) = width_onChange NaN area_state
   \<and> snd (handleAddDimToQuote example_builtins example_props ''1''
            (width_onChange NaN area_state)) \<noteq> []
   \<and> isDTF (length_onChange NaN film_state)
   \<and> dtfPreset (length_onChange NaN film_state) = None
   \<and> lengthVal (length_onChange NaN film_state) = Num 0
   \<and> fst (handleAddDimToQuote example_builtins example_props ''1''
            (length_onChange NaN film_state)) = length_onChange NaN film_state
   \<and> snd (handleAddDimToQuote example_builtins example_props ''1''
            (length_onChange NaN film_state)) \<noteq> []"
proof -
  have nz: "(- 100 :: real) \<noteq> 0" and le: "(0::real) \<le> 0" by simp_all
  have fl: "finite_double (nmul (lengthInMeters (width_onChange NaN area_state)) (Num 100))"
    unfolding blank_width_eval(3) by (rule finite_double_small) simp
  have fw: "finite_double (nmul (widthInMeters (width_onChange NaN area_state)) (Num 100))"
    unfolding blank_width_eval(4) by (rule finite_double_small) simp
  have w: "fst (handleAddDimToQuote example_builtins example_props ''1''
            (width_onChange NaN area_state)) = width_onChange NaN area_state
   \<and> snd (handleAddDimToQuote example_builtins example_props ''1''
            (width_onChange NaN area_state)) \<noteq> []"
    using le fl fw blank_width_eval(1,2,5,6,7)
      dimension_input_handling [where s = "width_onChange NaN area_state" and p = example_props
        and b = example_builtins and now = "''1''" and e = 0]
    by blast
  have l: "fst (handleAddDimToQuote example_builtins example_props ''1''
            (length_onChange NaN film_state)) = length_onChange NaN film_state
   \<and> snd (handleAddDimToQuote example_builtins example_props ''1''
            (length_onChange NaN film_state)) \<noteq> []"
    using le blank_length_eval
      dimension_input_handling [where s = "length_onChange NaN film_state" and p = example_props
        and b = example_builtins and now = "''1''" and e = 0]
    by blast
  have n: "lengthVal (length_onChange NaN area_state) = Num 0
   \<and> fromMeters (lengthInMeters (length_onChange NaN area_state)) Unit_cm = Num 0
   \<and> lengthVal (length_onChange (Num (- 100)) area_state) = Num (- 100)"
    using nz dimension_input_handling [where s = area_state and r = "- 100" and u = Unit_cm]
    by blast
  show ?thesis
    using n w l fl fw blank_width_eval(1,2) blank_length_eval(1-3) by blast
qed

text \<open>
  The claim as stated fails for negative entries: with -100 and -60 typed into the
  length and width fields of the area scenario, the fields and the display hold -100 cm
  and -60 cm, not zero, and the append inserts a line item priced 30000 from them.
\<close>

theorem dimension_input_handling_counterexample:
  "negative_dims_state = width_onChange (Num (- 60)) (length_onChange (Num (- 100)) area_state)
   \<and> lengthVal negative_dims_state = Num (- 100)
   \<and> widthVal negative_dims_state = Num (- 60)
   \<and> fromMeters (lengthInMeters negative_dims_state) Unit_cm = Num (- 100)
   \<and> fromMeters (widthInMeters negative_dims_state) Unit_cm = Num (- 60)
   \<and> quoteItems negative_dims_state = []
   \<and> map price (quoteItems (fst (handleAddDimToQuote example_builtins example_props ''1''
        negative_dims_state))) = [Num 30000]"
  by (simp add: handleAddDimToQuote_def example_defs eval_defs)

section \<open>Validation failures and the vanished roll\<close>

lemma vanished_eval:
  "selectedStockItem vanished_state \<noteq> []"
  "isDTF vanished_state"
  "totalDimPrice example_props vanished_state = Num 15000"
  "find (\<lambda>i. skuId i = selectedStockItem vanished_state) (stockItems example_props) = None"
  by (simp_all add: example_defs eval_defs)

text \<open>
  C9 (amended): no handler throws. Each validation failure of the area, film and manual
  appends returns the unchanged state with one toast of type error, the first failing
  check giving the message. A selected roll that passes the validation and resolves to
  no stock item makes the append return the unchanged state with no toast: nothing is
  appended, nothing is reported and nothing is thrown.
\<close>

theorem validation_results:
  "(selectedStockItem s = [] \<longrightarrow>
      handleAddDimToQuote b p now s = (s, [(''Please select a material/roll.'', ''error'')]))
   \<and> (selectedStockItem s \<noteq> [] \<and> \<not> isDTF s \<and> selectedTier s = [] \<longrightarrow>
      handleAddDimToQuote b p now s = (s, [(''Please select a pricing tier.'', ''error'')]))
   \<and> (selectedStockItem s \<noteq> [] \<and> (isDTF s \<or> selectedTier s \<noteq> [])
        \<and> nle (totalDimPrice p s) (Num 0) \<longrightarrow>
      handleAddDimToQuote b p now s
        = (s, [(''Calculated price must be greater than zero.'', ''error'')]))
   \<and> (selectedStockItem s \<noteq> [] \<and> (isDTF s \<or> selectedTier s \<noteq> [])
        \<and> \<not> nle (totalDimPrice p s) (Num 0)
        \<and> find (\<lambda>i. skuId i = selectedStockItem s) (stockItems p) = None \<longrightarrow>
      handleAddDimToQuote b p now s = (s, []))
   \<and> (trim b (manualItemName s) = [] \<longrightarrow>
      handleAddManualToQuote b now s = (s, [(''Please enter an item name.'', ''error'')]))
   \<and> (trim b (manualItemName s) \<noteq> [] \<and> nle (manualPrice s) (Num 0) \<longrightarrow>
      handleAddManualToQuote b now s = (s, [(''Price must be greater than zero.'', ''error'')]))
   \<and> (trim b (manualItemName s) \<noteq> [] \<and> \<not> nle (manualPrice s) (Num 0)
        \<and> nle (manualQuantity s) (Num 0) \<longrightarrow>
      handleAddManualToQuote b now s
        = (s, [(''Quantity must be greater than zero.'', ''error'')]))"
  by (auto simp add: handleAddDimToQuote_def handleAddManualToQuote_def)

theorem validation_results_witness:
  "selectedStockItem initial_state = []
   \<and> handleAddDimToQuote example_builtins example_props ''1'' initial_state
       = (initial_state, [(''Please select a material/roll.'', ''error'')])
   \<and> selectedStockItem vanished_state \<noteq> [] \<and> isDTF vanished_state
   \<and> \<not> nle (totalDimPrice example_props vanished_state) (Num 0)
   \<and> find (\<lambda>i. skuId i = selectedStockItem vanished_state) (stockItems example_props) = None
   \<and> handleAddDimToQuote example_builtins example_props ''1'' vanished_state
       = (vanished_state, [])
   \<and> trim example_builtins (manualItemName initial_state) = []
   \<and> handleAddManualToQuote example_builtins ''1'' initial_state
       = (initial_state, [(''Please enter an item name.'', ''error'')])"
proof -
  have a: "selectedStockItem initial_state = []"
    and c: "trim example_builtins (manualItemName initial_state) = []"
    by (simp_all add: initial_state_def example_builtins_def)
  have d: "\<not> nle (totalDimPrice example_props vanished_state) (Num 0)"
    by (simp add: vanished_eval(3))
  show ?thesis
    using a c d vanished_eval(1,2,4)
      validation_results [where s = initial_state and p = example_props
        and b = example_builtins and now = "''1''"]
      validation_results [where s = vanished_state and p = example_props
        and b = example_builtins and now = "''1''"]
    by simp
qed

text \<open>
  The claim as stated fails on the film tab: with preset A4, three pieces and the selected
  roll \<open>SKU9\<close>, which is not among the stock items, the total 15000 passes the validation
  and the append completes with the state unchanged and no toast.
\<close>

theorem validation_results_counterexample:
  "selectedStockItem vanished_state = ''SKU9''
   \<and> map skuId (stockItems example_props) = [''SKU1'', ''SKU2'']
   \<and> isDTF vanished_state
   \<and> totalDimPrice example_props vanished_state = Num 15000
   \<and> handleAddDimToQuote example_builtins example_props ''1'' vanished_state
       = (vanished_state, [])"
  by (simp add: handleAddDimToQuote_def example_defs eval_defs)

section \<open>The effective floor\<close>

lemma floor_not_negative:
  "inv_minPrice sp = None \<or> (\<exists>v. inv_minPrice sp = Some v \<and> \<not> nlt v (Num 0))
     \<Longrightarrow> \<not> nlt (floorPrice sp) (Num 0)"
  by (auto simp add: floorPrice_def opt_num_or_def num_or_def split: if_splits)

lemma below_zero_below_floor:
  "nlt a (Num 0) \<Longrightarrow> \<not> nlt f (Num 0) \<Longrightarrow> \<not> isNaN f \<Longrightarrow> nlt a f"
  by (cases a; cases f) simp_all

lemma floor_not_NaN: "\<not> isNaN (floorPrice sp)"
  by (cases "inv_minPrice sp"; cases "the (inv_minPrice sp)")
     (simp_all add: floorPrice_def opt_num_or_def num_or_def)

lemma floorless_eval:
  "inv_minPrice floorless_product = None"
  "selectedProduct (catalog_state\<lparr>selectedProduct := Some floorless_product\<rparr>)
     = Some floorless_product"
  "\<not> nle (simpleQuantity (catalog_state\<lparr>selectedProduct := Some floorless_product\<rparr>)) (Num 0)"
  "nle (Num 0) (negotiatedPrice (catalog_state\<lparr>selectedProduct := Some floorless_product\<rparr>))"
  "quoteItems (catalog_state\<lparr>selectedProduct := Some floorless_product\<rparr>) = []"
  "simpleQuantity (catalog_state\<lparr>selectedProduct := Some floorless_product\<rparr>) = Num 1"
  by (simp_all add: example_defs)

lemma negative_on_floorless_eval:
  "selectedProduct (negative_offer_state\<lparr>selectedProduct := Some floorless_product\<rparr>)
     = Some floorless_product"
  "nlt (negotiatedPrice (negative_offer_state\<lparr>selectedProduct := Some floorless_product\<rparr>))
     (Num 0)"
  by (simp_all add: example_defs)

text \<open>
  C10 (amended): a product without a floor price has the effective floor 0, and then the
  catalog append and its button admit every non-negative negotiated price (for a positive
  quantity). A negative negotiated price is rejected, and the button disabled, for every
  product whose effective floor is not below 0: one whose stored floor is absent or not
  negative. A negative stored floor is the effective floor as it is.
\<close>

theorem absent_floor_is_zero:
  "(inv_minPrice sp = None \<longrightarrow> floorPrice sp = Num 0)
   \<and> (selectedProduct s = Some sp \<and> inv_minPrice sp = None
        \<and> \<not> nle (simpleQuantity s) (Num 0) \<and> nle (Num 0) (negotiatedPrice s) \<longrightarrow>
      \<not> appendSimple_disabled s
      \<and> (\<exists>item. quoteItems (fst (handleAddSimpleToQuote b now s)) = quoteItems s @ [item]
            \<and> quantity item = simpleQuantity s)
      \<and> snd (handleAddSimpleToQuote b now s) = [])
   \<and> (inv_minPrice sp = None \<or> (\<exists>v. inv_minPrice sp = Some v \<and> \<not> nlt v (Num 0)) \<longrightarrow>
      \<not> nlt (floorPrice sp) (Num 0))
   \<and> (selectedProduct s = Some sp \<and> \<not> nlt (floorPrice sp) (Num 0)
        \<and> nlt (negotiatedPrice s) (Num 0) \<longrightarrow>
      appendSimple_disabled s
      \<and> fst (handleAddSimpleToQuote b now s) = s
      \<and> snd (handleAddSimpleToQuote b now s) \<noteq> [])
   \<and> (inv_minPrice sp = Some (Num f) \<and> f < 0 \<longrightarrow> floorPrice sp = Num f)"
proof -
  have z: "inv_minPrice sp = None \<longrightarrow> floorPrice sp = Num 0"
    by (simp add: floorPrice_def opt_num_or_def)
  have admit: "selectedProduct s = Some sp \<and> inv_minPrice sp = None
        \<and> \<not> nle (simpleQuantity s) (Num 0) \<and> nle (Num 0) (negotiatedPrice s) \<longrightarrow>
      \<not> appendSimple_disabled s
      \<and> (\<exists>item. quoteItems (fst (handleAddSimpleToQuote b now s)) = quoteItems s @ [item]
            \<and> quantity item = simpleQuantity s)
      \<and> snd (handleAddSimpleToQuote b now s) = []"
  proof
    assume a: "selectedProduct s = Some sp \<and> inv_minPrice sp = None
        \<and> \<not> nle (simpleQuantity s) (Num 0) \<and> nle (Num 0) (negotiatedPrice s)"
    then have fl: "floorPrice sp = Num 0" using z by blast
    have ok: "\<not> nlt (negotiatedPrice s) (Num 0)"
      using a by (cases "negotiatedPrice s") simp_all
    show "\<not> appendSimple_disabled s
      \<and> (\<exists>item. quoteItems (fst (handleAddSimpleToQuote b now s)) = quoteItems s @ [item]
            \<and> quantity item = simpleQuantity s)
      \<and> snd (handleAddSimpleToQuote b now s) = []"
      using a fl ok by (simp add: appendSimple_disabled_def handleAddSimpleToQuote_def Let_def)
  qed
  have nn: "inv_minPrice sp = None \<or> (\<exists>v. inv_minPrice sp = Some v \<and> \<not> nlt v (Num 0)) \<longrightarrow>
      \<not> nlt (floorPrice sp) (Num 0)"
    using floor_not_negative by blast
  have reject: "selectedProduct s = Some sp \<and> \<not> nlt (floorPrice sp) (Num 0)
        \<and> nlt (negotiatedPrice s) (Num 0) \<longrightarrow>
      appendSimple_disabled s
      \<and> fst (handleAddSimpleToQuote b now s) = s
      \<and> snd (handleAddSimpleToQuote b now s) \<noteq> []"
  proof
    assume a: "selectedProduct s = Some sp \<and> \<not> nlt (floorPrice sp) (Num 0)
        \<and> nlt (negotiatedPrice s) (Num 0)"
    then have "nlt (negotiatedPrice s) (floorPrice sp)"
      using below_zero_below_floor [of "negotiatedPrice s" "floorPrice sp"] floor_not_NaN
      by blast
    then show "appendSimple_disabled s
      \<and> fst (handleAddSimpleToQuote b now s) = s
      \<and> snd (handleAddSimpleToQuote b now s) \<noteq> []"
      using a by (simp add: appendSimple_disabled_def handleAddSimpleToQuote_def)
  qed
  have neg: "inv_minPrice sp = Some (Num f) \<and> f < 0 \<longrightarrow> floorPrice sp = Num f"
    by (simp add: floorPrice_def opt_num_or_def num_or_def)
  show ?thesis using z admit nn reject neg by blast
qed

theorem absent_floor_is_zero_witness:
  "inv_minPrice floorless_product = None
   \<and> floorPrice floorless_product = Num 0
   \<and> \<not> appendSimple_disabled (catalog_state\<lparr>selectedProduct := Some floorless_product\<rparr>)
   \<and> (\<exists>item. quoteItems (fst (handleAddSimpleToQuote example_builtins ''1''
                  (catalog_state\<lparr>selectedProduct := Some floorless_product\<rparr>))) = [item]
         \<and> quantity item = Num 1)
   \<and> \<not> nlt (floorPrice floorless_product) (Num 0)
   \<and> nlt (negotiatedPrice (negative_offer_state\<lparr>selectedProduct := Some floorless_product\<rparr>))
        (Num 0)
   \<and> appendSimple_disabled (negative_offer_state\<lparr>selectedProduct := Some floorless_product\<rparr>)
   \<and> fst (handleAddSimpleToQuote example_builtins ''1''
            (negative_offer_state\<lparr>selectedProduct := Some floorless_product\<rparr>))
       = negative_offer_state\<lparr>selectedProduct := Some floorless_product\<rparr>
   \<and> inv_minPrice negative_floor_product = Some (Num (- 100))
   \<and> floorPrice negative_floor_product = Num (- 100)"
proof -
  have neg: "inv_minPrice negative_floor_product = Some (Num (- 100))" and lt: "(- 100 :: real) < 0"
    by (simp_all add: example_defs)
  show ?thesis
    using neg lt floorless_eval negative_on_floorless_eval
      absent_floor_is_zero [where sp = floorless_product
        and s = "catalog_state\<lparr>selectedProduct := Some floorless_product\<rparr>"
        and b = example_builtins and now = "''1''"]
      absent_floor_is_zero [where sp = floorless_product
        and s = "negative_offer_state\<lparr>selectedProduct := Some floorless_product\<rparr>"
        and b = example_builtins and now = "''1''"]
      absent_floor_is_zero [where sp = negative_floor_product and f = "- 100"]
    by simp
qed

text \<open>
  The claim as stated fails for a product with a negative stored floor: with the floor
  -100 the offer of -50 is not below the floor, the button is enabled and the append
  inserts a line item with the unit price -50.
\<close>

theorem absent_floor_is_zero_counterexample:
  "selectedProduct negative_offer_state = Some negative_floor_product
   \<and> inv_minPrice negative_floor_product = Some (Num (- 100))
   \<and> negotiatedPrice negative_offer_state = Num (- 50)
   \<and> nlt (floorPrice negative_floor_product) (Num 0)
   \<and> \<not> appendSimple_disabled negative_offer_state
   \<and> quoteItems negative_offer_state = []
   \<and> map price (quoteItems (fst (handleAddSimpleToQuote example_builtins ''1''
        negative_offer_state))) = [Num (- 50)]"
  by (simp add: handleAddSimpleToQuote_def appendSimple_disabled_def example_defs eval_defs)

end
